theory Spec2Isabelle
  imports Main "HOL-Library.Word" "HOL-Library.AList" "HOL-Library.Char_ord"
begin

unbundle bit_operations_syntax

section \<open>Go values\<close>

text \<open>
  A Go \<^verbatim>\<open>string\<close> is a sequence of bytes, as \<^typ>\<open>string\<close> is here. A Go \<^verbatim>\<open>error\<close> is
  modelled by its message; the \<^verbatim>\<open>nil\<close> error is \<^term>\<open>None\<close>. A function that returns
  \<^verbatim>\<open>(T, error)\<close> returns a pair, so that a caller which drops the error
  (\<^verbatim>\<open>key, _ := generateKey()\<close>) still reads the first component. A run-time panic is an
  outcome of its own.
\<close>

type_synonym err = string

datatype 'a outcome = Returns 'a | Panics string

text \<open>
  \<^verbatim>\<open>strconv.FormatInt(i, 10)\<close>: the decimal text of an integer, which is also the text of
  an integer number in JSON and in a DynamoDB number attribute.
\<close>

fun digits :: "nat \<Rightarrow> string" where
  "digits n =
     (if n < 10 then [''0123456789'' ! n] else digits (n div 10) @ [''0123456789'' ! (n mod 10)])"

declare digits.simps [simp del]

definition FormatInt :: "int \<Rightarrow> string" where
  "FormatInt i = (if i < 0 then CHR ''-'' # digits (nat (- i)) else digits (nat i))"

section \<open>Key generator (internal/api/handlers.go)\<close>

text \<open>
  \<^verbatim>\<open>keyPattern = regexp.MustCompile(`^[a-zA-Z0-9]{16}$`)\<close> and
  \<^verbatim>\<open>alphanumeric = "abc...xyzABC...XYZ0123456789"\<close>.
  In Go's syntax \<^verbatim>\<open>$\<close> without the multi-line flag matches at the end of the text only,
  so the pattern matches exactly the strings of 16 bytes that all lie in the three ranges.
\<close>

definition alphanumeric :: string where
  "alphanumeric = ''abcdefghijklmnopqrstuvwxyzABCDEFGHIJKLMNOPQRSTUVWXYZ0123456789''"

definition alnum_class :: "char \<Rightarrow> bool" where
  "alnum_class c =
     ((CHR ''a'' \<le> c \<and> c \<le> CHR ''z'') \<or>
      (CHR ''A'' \<le> c \<and> c \<le> CHR ''Z'') \<or>
      (CHR ''0'' \<le> c \<and> c \<le> CHR ''9''))"

definition keyPattern_MatchString :: "string \<Rightarrow> bool" where
  "keyPattern_MatchString key = (length key = 16 \<and> list_all alnum_class key)"

subsection \<open>The random source and \<^verbatim>\<open>crypto/rand.Int\<close>\<close>

text \<open>
  \<^verbatim>\<open>rand.Reader\<close> is modelled by the bytes it delivers before it fails: reading past the
  end of the list is the reader's error. \<^verbatim>\<open>io.ReadFull\<close> reads exactly \<open>k\<close> bytes or fails.
  A reader that never fails and only delivers bytes that \<^verbatim>\<open>rand.Int\<close> rejects would keep
  its loop running for ever; no finite list is such a run, so every run modelled here
  returns, with a number or with the reader's error.
\<close>

type_synonym Reader = "8 word list"

definition io_ReadFull :: "Reader \<Rightarrow> nat \<Rightarrow> (8 word list \<times> err option) \<times> Reader" where
  "io_ReadFull rd k =
     (if length rd < k
      then (([], Some (if rd = [] then ''EOF'' else ''unexpected EOF'')), [])
      else ((take k rd, None), drop k rd))"

text \<open>\<^verbatim>\<open>(*big.Int).BitLen\<close> and \<^verbatim>\<open>(*big.Int).SetBytes\<close> (big-endian).\<close>

fun BitLen :: "nat \<Rightarrow> nat" where
  "BitLen n = (if n = 0 then 0 else Suc (BitLen (n div 2)))"

declare BitLen.simps [simp del]

definition SetBytes :: "8 word list \<Rightarrow> nat" where
  "SetBytes bs = foldl (\<lambda>acc x. acc * 256 + unat x) 0 bs"

text \<open>
  \<^verbatim>\<open>rand.Int(rand, max)\<close> of the standard library: it panics for \<open>max \<le> 0\<close>, returns 0
  when \<open>max = 1\<close>, and otherwise draws \<open>k\<close> bytes, clears the surplus bits of the first
  byte, and repeats until the candidate is below \<open>max\<close>:
  \<^verbatim>\<open>
  n.Sub(max, n.SetUint64(1)); bitLen := n.BitLen()
  if bitLen == 0 { return }
  k := (bitLen + 7) / 8
  b := uint(bitLen % 8); if b == 0 { b = 8 }
  bytes := make([]byte, k)
  for {
      _, err = io.ReadFull(rand, bytes)
      if err != nil { return nil, err }
      bytes[0] &= uint8(int(1<<b) - 1)
      n.SetBytes(bytes)
      if n.Cmp(max) < 0 { return }
  }
  \<close>
  The result is the error or the number drawn.
\<close>

function rand_Int :: "Reader \<Rightarrow> nat \<Rightarrow> (err + nat) outcome \<times> Reader" where
  "rand_Int rd mx =
     (if mx = 0 then (Panics ''crypto/rand: argument to Int is <= 0'', rd)
      else if BitLen (mx - 1) = 0 then (Returns (Inr 0), rd)
      else
        (case io_ReadFull rd ((BitLen (mx - 1) + 7) div 8) of
           ((bytes, Some e), rd') \<Rightarrow> (Returns (Inl e), rd')
         | ((bytes, None), rd') \<Rightarrow>
             (let b = (if BitLen (mx - 1) mod 8 = 0 then 8 else BitLen (mx - 1) mod 8);
                  n = SetBytes ((hd bytes AND (push_bit b 1 - 1)) # tl bytes)
              in if n < mx then (Returns (Inr n), rd') else rand_Int rd' mx)))"
  by pat_completeness auto
termination
proof (relation "measure (\<lambda>(rd, mx). length rd)")
  show "wf (measure (\<lambda>(rd, mx). length rd))" by simp
next
  fix rd :: Reader and mx :: nat and x xa y x1
  assume len: "BitLen (mx - 1) \<noteq> 0"
    and rf: "(x, xa) = io_ReadFull rd ((BitLen (mx - 1) + 7) div 8)"
    and sp: "(y, x1) = x" "x1 = None"
  define k where "k = (BitLen (mx - 1) + 7) div 8"
  have "0 < k" using len unfolding k_def by simp
  moreover have "xa = drop k rd" and "k \<le> length rd"
    using rf sp unfolding io_ReadFull_def k_def by (simp_all split: if_split_asm)
  ultimately have "length xa < length rd" by simp
  then show "((xa, mx), (rd, mx)) \<in> measure (\<lambda>(rd, mx). length rd)"
    by simp
qed

text \<open>
  \<^verbatim>\<open>
  func generateKey() (string, error) {
      key := make([]byte, 16)
      for i := range key {
          num, err := rand.Int(rand.Reader, big.NewInt(int64(len(alphanumeric))))
          if err != nil { return "", err }
          key[i] = alphanumeric[num.Int64()]
      }
      return string(key), nil
  }
  \<close>
  The loop runs over the indices of \<open>key\<close>; indexing \<open>alphanumeric\<close> out of range would
  panic.
\<close>

fun generateKey_loop ::
  "nat list \<Rightarrow> string \<Rightarrow> Reader \<Rightarrow> (string \<times> err option) outcome \<times> Reader" where
  "generateKey_loop [] key rd = (Returns (key, None), rd)"
| "generateKey_loop (i # is) key rd =
     (case rand_Int rd (length alphanumeric) of
        (Panics p, rd') \<Rightarrow> (Panics p, rd')
      | (Returns (Inl e), rd') \<Rightarrow> (Returns ('''', Some e), rd')
      | (Returns (Inr num), rd') \<Rightarrow>
          if num < length alphanumeric
          then generateKey_loop is (key[i := alphanumeric ! num]) rd'
          else (Panics ''index out of range'', rd'))"

definition generateKey :: "Reader \<Rightarrow> (string \<times> err option) outcome \<times> Reader" where
  "generateKey rd = generateKey_loop [0..<16] (replicate 16 (CHR 0x00)) rd"

section \<open>Storage adapter (internal/store, internal/db)\<close>

subsection \<open>The store interface\<close>

text \<open>
  \<^verbatim>\<open>
  type UrlObject struct { Key string; URL string; RedirectCount int }
  type Store interface {
      Get(ctx, key string) (UrlObject, error)
      Put(ctx, key string, value string) error
      Delete(ctx, key string) error
      List(ctx) ([]UrlObject, error)
  }
  \<close>
  An implementation works on a state of its own, of type \<open>'s\<close>, which every method
  takes and returns. A Go slice is \<^term>\<open>None\<close> when it is \<^verbatim>\<open>nil\<close> and \<^term>\<open>Some xs\<close> when it
  is allocated (possibly with no element): the two differ when encoded as JSON.
\<close>

record UrlObject =
  Key :: string
  URL :: string
  RedirectCount :: int

definition UrlObject_zero :: UrlObject where
  "UrlObject_zero = \<lparr>Key = [], URL = [], RedirectCount = 0\<rparr>"

type_synonym 'a slice = "'a list option"

definition range_slice :: "'a slice \<Rightarrow> 'a list" where
  "range_slice xs = (case xs of None \<Rightarrow> [] | Some ys \<Rightarrow> ys)"

definition append_slice :: "'a slice \<Rightarrow> 'a \<Rightarrow> 'a slice" where
  "append_slice xs x = Some (range_slice xs @ [x])"

record 's Store =
  Get :: "'s \<Rightarrow> string \<Rightarrow> (UrlObject \<times> err option) \<times> 's"
  Put :: "'s \<Rightarrow> string \<Rightarrow> string \<Rightarrow> err option \<times> 's"
  Delete :: "'s \<Rightarrow> string \<Rightarrow> err option \<times> 's"
  List :: "'s \<Rightarrow> (UrlObject slice \<times> err option) \<times> 's"

subsection \<open>The DynamoDB table behind the client\<close>

text \<open>
  The service is not part of the repository. It is modelled as the one table the client
  is configured with, keyed by the string attribute \<open>id\<close> (the key schema \<^verbatim>\<open>SetupDB\<close>
  creates), with the documented meaning of the five calls the adapter makes, none of them
  conditional:
  \<^item> \<^verbatim>\<open>GetItem\<close> returns the item under the key, or no item;
  \<^item> \<^verbatim>\<open>PutItem\<close> replaces whatever is stored under the item's key;
  \<^item> \<^verbatim>\<open>UpdateItem\<close> with \<^verbatim>\<open>ADD name :v\<close> adds \<open>v\<close> to the number attribute \<open>name\<close>,
    sets it to \<open>v\<close> when the attribute is absent, creates the item when the key is absent,
    and is refused when the attribute is not a number;
  \<^item> \<^verbatim>\<open>DeleteItem\<close> removes the item and succeeds when there is none;
  \<^item> \<^verbatim>\<open>Scan\<close> returns the items of the table (one page; paging is not modelled).

  \<open>Rejects\<close> is the service's answer to a call it does not carry out, for any reason a
  request can fail (network, cancellation of the request context, throttling, validation
  of the request): \<^term>\<open>None\<close> when it carries the call out. \<open>Calls\<close> records the calls
  received, so that "the backend was not called" can be stated. Numbers are integers.
\<close>

datatype AttributeValue =
  AttributeValueMemberS string
| AttributeValueMemberN int
| AttributeValueMemberBOOL bool
| AttributeValueMemberNULL

type_synonym Item = "(string \<times> AttributeValue) list"

datatype UpdateBuilder = Add string int

datatype ddb_call =
  GetItem string
| UpdateItem string UpdateBuilder
| PutItem Item
| DeleteItem string
| Scan

record dynamodb =
  Items :: "(string \<times> Item) list"
  Rejects :: "ddb_call \<Rightarrow> err option"
  Calls :: "ddb_call list"

definition received :: "dynamodb \<Rightarrow> ddb_call \<Rightarrow> dynamodb" where
  "received ddb c = ddb\<lparr>Calls := Calls ddb @ [c]\<rparr>"

definition DDB_GetItem :: "dynamodb \<Rightarrow> string \<Rightarrow> (Item option \<times> err option) \<times> dynamodb" where
  "DDB_GetItem ddb key =
     (case Rejects ddb (GetItem key) of
        Some e \<Rightarrow> ((None, Some e), received ddb (GetItem key))
      | None \<Rightarrow> ((map_of (Items ddb) key, None), received ddb (GetItem key)))"

definition add_attribute :: "Item \<Rightarrow> string \<Rightarrow> int \<Rightarrow> err + Item" where
  "add_attribute item name v =
     (case map_of item name of
        None \<Rightarrow> Inr (AList.update name (AttributeValueMemberN v) item)
      | Some (AttributeValueMemberN n) \<Rightarrow> Inr (AList.update name (AttributeValueMemberN (n + v)) item)
      | Some _ \<Rightarrow> Inl ''ValidationException: incorrect operand type for ADD'')"

definition DDB_UpdateItem :: "dynamodb \<Rightarrow> string \<Rightarrow> UpdateBuilder \<Rightarrow> err option \<times> dynamodb" where
  "DDB_UpdateItem ddb key expr =
     (case Rejects ddb (UpdateItem key expr) of
        Some e \<Rightarrow> (Some e, received ddb (UpdateItem key expr))
      | None \<Rightarrow>
          (case expr of Add name v \<Rightarrow>
             (case add_attribute
                     (case map_of (Items ddb) key of
                        None \<Rightarrow> [(''id'', AttributeValueMemberS key)]
                      | Some item \<Rightarrow> item) name v of
                Inl e \<Rightarrow> (Some e, received ddb (UpdateItem key expr))
              | Inr item' \<Rightarrow>
                  (None, received (ddb\<lparr>Items := AList.update key item' (Items ddb)\<rparr>)
                           (UpdateItem key expr)))))"

definition DDB_PutItem :: "dynamodb \<Rightarrow> Item \<Rightarrow> err option \<times> dynamodb" where
  "DDB_PutItem ddb item =
     (case Rejects ddb (PutItem item) of
        Some e \<Rightarrow> (Some e, received ddb (PutItem item))
      | None \<Rightarrow>
          (case map_of item ''id'' of
             Some (AttributeValueMemberS key) \<Rightarrow>
               (None, received (ddb\<lparr>Items := AList.update key item (Items ddb)\<rparr>) (PutItem item))
           | _ \<Rightarrow> (Some ''ValidationException: missing the key id in the item'',
                   received ddb (PutItem item))))"

definition DDB_DeleteItem :: "dynamodb \<Rightarrow> string \<Rightarrow> err option \<times> dynamodb" where
  "DDB_DeleteItem ddb key =
     (case Rejects ddb (DeleteItem key) of
        Some e \<Rightarrow> (Some e, received ddb (DeleteItem key))
      | None \<Rightarrow>
          (None, received (ddb\<lparr>Items := AList.delete key (Items ddb)\<rparr>) (DeleteItem key)))"

definition DDB_Scan :: "dynamodb \<Rightarrow> (Item list \<times> err option) \<times> dynamodb" where
  "DDB_Scan ddb =
     (case Rejects ddb Scan of
        Some e \<Rightarrow> (([], Some e), received ddb Scan)
      | None \<Rightarrow> ((map snd (Items ddb), None), received ddb Scan))"

subsection \<open>Items and their encoding (internal/db/db.go)\<close>

text \<open>
  \<^verbatim>\<open>
  type URLItem struct {
      ID          string `dynamodbav:"id"`
      RedirectURL string `dynamodbav:"redirect_url"`
      AccessCount int64  `dynamodbav:"access_count"`
      CreatedAt   int64  `dynamodbav:"created_at"`
  }
  \<close>
  \<^verbatim>\<open>attributevalue.MarshalMap\<close> writes the four attributes with their tags, strings as \<open>S\<close>
  and integers as \<open>N\<close>. \<^verbatim>\<open>attributevalue.UnmarshalMap\<close> reads them back, attribute by
  attribute:
  \<^item> into a string field, \<open>S\<close> gives its string and \<open>N\<close> the text of the number;
  \<^item> into an \<^verbatim>\<open>int64\<close> field, \<open>N\<close> gives the number when \<^verbatim>\<open>strconv.ParseInt\<close> reads it into
    64 bits, and the error of \<^verbatim>\<open>strconv.ParseInt\<close> otherwise;
  \<^item> an absent or \<open>NULL\<close> attribute leaves the zero value;
  \<^item> every other combination is an \<^verbatim>\<open>UnmarshalTypeError\<close>.

  The decoder is a parameter of the client's \<open>Get\<close> and \<open>List\<close> below, so that what is
  proved of them holds for every decoder. \<open>UnmarshalMap\<close> is the instance used where a
  record written by \<open>Put\<close> is read back, and in the examples; it looks the four
  attributes up by the names of the tags.
\<close>

record URLItem =
  ID :: string
  RedirectURL :: string
  AccessCount :: int
  CreatedAt :: int

definition URLItem_zero :: URLItem where
  "URLItem_zero = \<lparr>ID = [], RedirectURL = [], AccessCount = 0, CreatedAt = 0\<rparr>"

definition MarshalMap :: "URLItem \<Rightarrow> Item \<times> err option" where
  "MarshalMap item =
     ([(''id'', AttributeValueMemberS (ID item)),
       (''redirect_url'', AttributeValueMemberS (RedirectURL item)),
       (''access_count'', AttributeValueMemberN (AccessCount item)),
       (''created_at'', AttributeValueMemberN (CreatedAt item))], None)"

definition decode_string :: "AttributeValue option \<Rightarrow> err + string" where
  "decode_string av =
     (case av of
        None \<Rightarrow> Inr []
      | Some (AttributeValueMemberS s) \<Rightarrow> Inr s
      | Some (AttributeValueMemberN n) \<Rightarrow> Inr (FormatInt n)
      | Some AttributeValueMemberNULL \<Rightarrow> Inr []
      | Some (AttributeValueMemberBOOL b) \<Rightarrow>
          Inl ''unmarshal failed, cannot unmarshal bool into Go value type string'')"

definition decode_int64 :: "AttributeValue option \<Rightarrow> err + int" where
  "decode_int64 av =
     (case av of
        None \<Rightarrow> Inr 0
      | Some (AttributeValueMemberN n) \<Rightarrow>
          if - (2 ^ 63) \<le> n \<and> n < 2 ^ 63 then Inr n
          else Inl (''strconv.ParseInt: parsing '' @ [CHR 0x22] @ FormatInt n @ [CHR 0x22] @
                    '': value out of range'')
      | Some AttributeValueMemberNULL \<Rightarrow> Inr 0
      | Some (AttributeValueMemberS s) \<Rightarrow>
          Inl ''unmarshal failed, cannot unmarshal string into Go value type int64''
      | Some (AttributeValueMemberBOOL b) \<Rightarrow>
          Inl ''unmarshal failed, cannot unmarshal bool into Go value type int64'')"

type_synonym Unmarshaler = "Item \<Rightarrow> URLItem \<times> err option"

definition UnmarshalMap :: Unmarshaler where
  "UnmarshalMap av =
     (case (decode_string (map_of av ''id''), decode_string (map_of av ''redirect_url''),
            decode_int64 (map_of av ''access_count''), decode_int64 (map_of av ''created_at'')) of
        (Inr i, Inr u, Inr a, Inr c) \<Rightarrow>
          (\<lparr>ID = i, RedirectURL = u, AccessCount = a, CreatedAt = c\<rparr>, None)
      | (Inl e, _, _, _) \<Rightarrow> (URLItem_zero, Some e)
      | (_, Inl e, _, _) \<Rightarrow> (URLItem_zero, Some e)
      | (_, _, Inl e, _) \<Rightarrow> (URLItem_zero, Some e)
      | (_, _, _, Inl e) \<Rightarrow> (URLItem_zero, Some e))"

text \<open>
  \<^verbatim>\<open>expression.NewBuilder().WithUpdate(update).Build()\<close> fails only on an empty builder;
  with an update it returns the expression.
\<close>

definition expression_Build :: "UpdateBuilder \<Rightarrow> UpdateBuilder \<times> err option" where
  "expression_Build update = (update, None)"

subsection \<open>The client (internal/db/crud.go)\<close>

text \<open>
  The client is the receiver of the four methods; of its fields only \<open>DebugMode\<close> and the
  service handle are read (the handle always with the table name \<open>Table\<close>). \<open>Get\<close> and
  \<open>List\<close> take \<^verbatim>\<open>attributevalue.UnmarshalMap\<close> as their first argument. The state the
  methods work on is the service behind the handle, the standard output \<^verbatim>\<open>fmt.Printf\<close>
  writes to, and the clock: \<open>Now_Unix\<close> is the \<^verbatim>\<open>int64\<close> that \<^verbatim>\<open>time.Now().Unix()\<close> returns.
\<close>

record Client =
  DebugMode :: bool
  Table :: string

record world =
  DDB :: dynamodb
  Stdout :: "string list"
  Now_Unix :: "64 word"

definition to_UrlObject :: "URLItem \<Rightarrow> UrlObject" where
  "to_UrlObject item =
     \<lparr>Key = ID item, URL = RedirectURL item, RedirectCount = AccessCount item\<rparr>"

definition debug_Printf :: "Client \<Rightarrow> world \<Rightarrow> string \<Rightarrow> world" where
  "debug_Printf client w line = (if DebugMode client then w\<lparr>Stdout := Stdout w @ [line]\<rparr> else w)"

text \<open>
  \<^verbatim>\<open>
  func (client *Client) Get(ctx, key string) (store.UrlObject, error) {
      result, err := client.DDB.GetItem(...key...)
      if err != nil { return store.UrlObject{}, fmt.Errorf("failed to get item: %w", err) }
      if result.Item == nil { return store.UrlObject{}, nil }
      var item URLItem
      err = attributevalue.UnmarshalMap(result.Item, &item)
      if err != nil { return store.UrlObject{}, fmt.Errorf("failed to unmarshal item: %w", err) }
      update := expression.Add(expression.Name("access_count"), expression.Value(1))
      expr, err := expression.NewBuilder().WithUpdate(update).Build()
      if err != nil { return store.UrlObject{}, fmt.Errorf("failed to build update expression: %w", err) }
      _, err = client.DDB.UpdateItem(...key, expr...)
      if err != nil {
          // Log error but don't fail the request
          if client.DebugMode { fmt.Printf("failed to increment access count: %v\n", err) }
      }
      return store.UrlObject{Key: item.ID, URL: item.RedirectURL, RedirectCount: int(item.AccessCount)}, nil
  }
  \<close>
\<close>

definition Client_Get ::
  "Unmarshaler \<Rightarrow> Client \<Rightarrow> world \<Rightarrow> string \<Rightarrow> (UrlObject \<times> err option) \<times> world" where
  "Client_Get unmarshal client w key =
     (case DDB_GetItem (DDB w) key of
        ((result, Some e), ddb1) \<Rightarrow>
          ((UrlObject_zero, Some (''failed to get item: '' @ e)), w\<lparr>DDB := ddb1\<rparr>)
      | ((None, None), ddb1) \<Rightarrow> ((UrlObject_zero, None), w\<lparr>DDB := ddb1\<rparr>)
      | ((Some av, None), ddb1) \<Rightarrow>
          (case unmarshal av of
             (item, Some e) \<Rightarrow>
               ((UrlObject_zero, Some (''failed to unmarshal item: '' @ e)), w\<lparr>DDB := ddb1\<rparr>)
           | (item, None) \<Rightarrow>
               (case expression_Build (Add ''access_count'' 1) of
                  (expr, Some e) \<Rightarrow>
                    ((UrlObject_zero, Some (''failed to build update expression: '' @ e)),
                     w\<lparr>DDB := ddb1\<rparr>)
                | (expr, None) \<Rightarrow>
                    (case DDB_UpdateItem ddb1 key expr of
                       (Some e, ddb2) \<Rightarrow>
                         ((to_UrlObject item, None),
                          debug_Printf client (w\<lparr>DDB := ddb2\<rparr>)
                            (''failed to increment access count: '' @ e @ [CHR 0x0A]))
                     | (None, ddb2) \<Rightarrow> ((to_UrlObject item, None), w\<lparr>DDB := ddb2\<rparr>)))))"

text \<open>
  \<^verbatim>\<open>
  func (client *Client) Put(ctx, key string, value string) error {
      item := URLItem{ID: key, RedirectURL: value, AccessCount: 0, CreatedAt: time.Now().Unix()}
      av, err := attributevalue.MarshalMap(item)
      if err != nil { return fmt.Errorf("failed to marshal item: %w", err) }
      _, err = client.DDB.PutItem(...av...)
      if err != nil { return fmt.Errorf("failed to put item: %w", err) }
      return nil
  }
  \<close>
\<close>

definition Client_Put :: "Client \<Rightarrow> world \<Rightarrow> string \<Rightarrow> string \<Rightarrow> err option \<times> world" where
  "Client_Put client w key value =
     (case MarshalMap \<lparr>ID = key, RedirectURL = value, AccessCount = 0, CreatedAt = sint (Now_Unix w)\<rparr> of
        (av, Some e) \<Rightarrow> (Some (''failed to marshal item: '' @ e), w)
      | (av, None) \<Rightarrow>
          (case DDB_PutItem (DDB w) av of
             (Some e, ddb1) \<Rightarrow> (Some (''failed to put item: '' @ e), w\<lparr>DDB := ddb1\<rparr>)
           | (None, ddb1) \<Rightarrow> (None, w\<lparr>DDB := ddb1\<rparr>)))"

text \<open>
  \<^verbatim>\<open>
  func (client *Client) Delete(ctx, key string) error {
      _, err := client.DDB.DeleteItem(...key...)
      if err != nil { return fmt.Errorf("failed to delete item: %w", err) }
      return nil
  }
  \<close>
\<close>

definition Client_Delete :: "Client \<Rightarrow> world \<Rightarrow> string \<Rightarrow> err option \<times> world" where
  "Client_Delete client w key =
     (case DDB_DeleteItem (DDB w) key of
        (Some e, ddb1) \<Rightarrow> (Some (''failed to delete item: '' @ e), w\<lparr>DDB := ddb1\<rparr>)
      | (None, ddb1) \<Rightarrow> (None, w\<lparr>DDB := ddb1\<rparr>))"

text \<open>
  \<^verbatim>\<open>
  func (client *Client) List(ctx) ([]store.UrlObject, error) {
      result, err := client.DDB.Scan(...)
      if err != nil { return nil, fmt.Errorf("failed to scan table: %w", err) }
      urlObjects := make([]store.UrlObject, 0, len(result.Items))
      for _, item := range result.Items {
          var urlItem URLItem
          err := attributevalue.UnmarshalMap(item, &urlItem)
          if err != nil {
              if client.DebugMode { fmt.Printf("failed to unmarshal item: %v\n", err) }
              continue
          }
          urlObjects = append(urlObjects, store.UrlObject{...})
      }
      return urlObjects, nil
  }
  \<close>
\<close>

fun Client_List_loop ::
  "Unmarshaler \<Rightarrow> Client \<Rightarrow> Item list \<Rightarrow> UrlObject slice \<Rightarrow> world \<Rightarrow>
   UrlObject slice \<times> world" where
  "Client_List_loop unmarshal client [] urlObjects w = (urlObjects, w)"
| "Client_List_loop unmarshal client (item # items) urlObjects w =
     (case unmarshal item of
        (urlItem, Some e) \<Rightarrow>
          Client_List_loop unmarshal client items urlObjects
            (debug_Printf client w (''failed to unmarshal item: '' @ e @ [CHR 0x0A]))
      | (urlItem, None) \<Rightarrow>
          Client_List_loop unmarshal client items
            (append_slice urlObjects (to_UrlObject urlItem)) w)"

definition Client_List ::
  "Unmarshaler \<Rightarrow> Client \<Rightarrow> world \<Rightarrow> (UrlObject slice \<times> err option) \<times> world" where
  "Client_List unmarshal client w =
     (case DDB_Scan (DDB w) of
        ((items, Some e), ddb1) \<Rightarrow> ((None, Some (''failed to scan table: '' @ e)), w\<lparr>DDB := ddb1\<rparr>)
      | ((items, None), ddb1) \<Rightarrow>
          (case Client_List_loop unmarshal client items (Some []) (w\<lparr>DDB := ddb1\<rparr>) of
             (urlObjects, w') \<Rightarrow> ((urlObjects, None), w')))"

text \<open>The client as an implementation of the store interface.\<close>

definition Client_Store :: "Unmarshaler \<Rightarrow> Client \<Rightarrow> world Store" where
  "Client_Store unmarshal client =
     \<lparr>Get = Client_Get unmarshal client, Put = Client_Put client,
      Delete = Client_Delete client, List = Client_List unmarshal client\<rparr>"

section \<open>Library functions the handlers call\<close>

subsection \<open>\<^verbatim>\<open>strings\<close> and \<^verbatim>\<open>path\<close>\<close>

definition HasPrefix :: "string \<Rightarrow> string \<Rightarrow> bool" where
  "HasPrefix s p = (take (length p) s = p)"

definition HasSuffix :: "string \<Rightarrow> string \<Rightarrow> bool" where
  "HasSuffix s p = (length p \<le> length s \<and> drop (length s - length p) s = p)"

text \<open>\<^verbatim>\<open>strings.Cut(s, sep)\<close> for a separator of one byte: the text before and after it.\<close>

definition Cut :: "string \<Rightarrow> char \<Rightarrow> string \<times> string" where
  "Cut s sep = (takeWhile (\<lambda>c. c \<noteq> sep) s, drop 1 (dropWhile (\<lambda>c. c \<noteq> sep) s))"

definition ToLower :: "string \<Rightarrow> string" where
  "ToLower s =
     map (\<lambda>c. if CHR ''A'' \<le> c \<and> c \<le> CHR ''Z'' then char_of (of_char c + (32::nat)) else c) s"

text \<open>\<^verbatim>\<open>path.Split\<close>: the text up to and including the last slash, and the rest.\<close>

definition path_Split :: "string \<Rightarrow> string \<times> string" where
  "path_Split p =
     (rev (dropWhile (\<lambda>c. c \<noteq> CHR ''/'') (rev p)), rev (takeWhile (\<lambda>c. c \<noteq> CHR ''/'') (rev p)))"

text \<open>
  \<^verbatim>\<open>path.Clean\<close>. The loop reads the path from index \<open>r\<close> and writes to a buffer; here
  \<open>rest\<close> is the path from \<open>r\<close> on and \<open>out\<close> the buffer written so far (\<open>out.w\<close> is its
  length). \<open>backtrack\<close> is the inner loop of the \<^verbatim>\<open>..\<close> case:
  \<^verbatim>\<open>out.w--; for out.w > dotdot && out.index(out.w) != '/' { out.w-- }\<close>.
\<close>

function backtrack :: "string \<Rightarrow> nat \<Rightarrow> nat \<Rightarrow> nat" where
  "backtrack out dotdot w =
     (if w > dotdot \<and> out ! w \<noteq> CHR ''/'' then backtrack out dotdot (w - 1) else w)"
  by pat_completeness auto
termination
  by (relation "measure (\<lambda>(out, dotdot, w). w)") auto

declare backtrack.simps [simp del]

lemma dropWhile_shorter:
  "rest \<noteq> [] \<Longrightarrow> P (hd rest) \<Longrightarrow> length (dropWhile P rest) < length rest"
  by (cases rest) (simp_all add: le_imp_less_Suc length_dropWhile_le)

function path_Clean_loop :: "bool \<Rightarrow> string \<Rightarrow> string \<Rightarrow> nat \<Rightarrow> string" where
  "path_Clean_loop rooted rest out dotdot =
     (if rest = [] then out
      else if hd rest = CHR ''/'' then path_Clean_loop rooted (tl rest) out dotdot
      else if hd rest = CHR ''.'' \<and> (tl rest = [] \<or> hd (tl rest) = CHR ''/'')
        then path_Clean_loop rooted (tl rest) out dotdot
      else if hd rest = CHR ''.'' \<and> tl rest \<noteq> [] \<and> hd (tl rest) = CHR ''.'' \<and>
              (tl (tl rest) = [] \<or> hd (tl (tl rest)) = CHR ''/'')
        then
          (if length out > dotdot
             then path_Clean_loop rooted (drop 2 rest)
                    (take (backtrack out dotdot (length out - 1)) out) dotdot
           else if \<not> rooted
             then path_Clean_loop rooted (drop 2 rest)
                    ((if length out > 0 then out @ ''/'' else out) @ ''..'')
                    (length ((if length out > 0 then out @ ''/'' else out) @ ''..''))
           else path_Clean_loop rooted (drop 2 rest) out dotdot)
      else path_Clean_loop rooted (dropWhile (\<lambda>c. c \<noteq> CHR ''/'') rest)
             ((if (rooted \<and> length out \<noteq> 1) \<or> (\<not> rooted \<and> length out \<noteq> 0)
               then out @ ''/'' else out) @ takeWhile (\<lambda>c. c \<noteq> CHR ''/'') rest)
             dotdot)"
  by pat_completeness auto
termination
proof (relation "measure (\<lambda>(rooted, rest, out, dotdot). length rest)")
  show "wf (measure (\<lambda>(rooted, rest, out, dotdot). length rest))" by simp
next
  fix rooted :: bool and rest out :: string and dotdot :: nat
  assume "rest \<noteq> []" "hd rest \<noteq> CHR ''/''"
  then have "length (dropWhile (\<lambda>c. c \<noteq> CHR ''/'') rest) < length rest"
    by (rule dropWhile_shorter)
  then show "((rooted, dropWhile (\<lambda>c. c \<noteq> CHR ''/'') rest,
               (if (rooted \<and> length out \<noteq> 1) \<or> (\<not> rooted \<and> length out \<noteq> 0)
                then out @ ''/'' else out) @ takeWhile (\<lambda>c. c \<noteq> CHR ''/'') rest, dotdot),
              (rooted, rest, out, dotdot))
             \<in> measure (\<lambda>(rooted, rest, out, dotdot). length rest)"
    by simp
qed simp_all

declare path_Clean_loop.simps [simp del]

definition path_Clean :: "string \<Rightarrow> string" where
  "path_Clean p =
     (if p = [] then ''.''
      else
        (let rooted = (hd p = CHR ''/'');
             out = path_Clean_loop rooted (if rooted then tl p else p)
                     (if rooted then ''/'' else []) (if rooted then 1 else 0)
         in if out = [] then ''.'' else out))"

subsection \<open>\<^verbatim>\<open>net/url\<close>\<close>

text \<open>
  Of a parsed URL the handlers read the scheme and the host. The parser is the standard
  library's \<^verbatim>\<open>parse(rawURL, viaRequest)\<close>: its control flow is followed here; the three
  helpers it ends in (the authority with its host, the path and the fragment, each with
  its own escaping rules) are parameters, so that what is proved holds for every
  behaviour of them.
\<close>

record url_URL =
  Scheme :: string
  Host :: string

record net_url =
  parseAuthority :: "string \<Rightarrow> err + string"
  setPath :: "string \<Rightarrow> err option"
  setFragment :: "string \<Rightarrow> err option"

definition stringContainsCTLByte :: "string \<Rightarrow> bool" where
  "stringContainsCTLByte s = list_ex (\<lambda>c. c < CHR 0x20 \<or> c = CHR 0x7F) s"

text \<open>
  \<^verbatim>\<open>
  func getScheme(rawURL string) (scheme, path string, err error) {
      for i := 0; i < len(rawURL); i++ {
          c := rawURL[i]
          switch {
          case 'a' <= c && c <= 'z' || 'A' <= c && c <= 'Z':
          case '0' <= c && c <= '9' || c == '+' || c == '-' || c == '.':
              if i == 0 { return "", rawURL, nil }
          case c == ':':
              if i == 0 { return "", "", errors.New("missing protocol scheme") }
              return rawURL[:i], rawURL[i+1:], nil
          default:
              return "", rawURL, nil
          }
      }
      return "", rawURL, nil
  }
  \<close>
  In the loop below \<open>pre\<close> is \<^verbatim>\<open>rawURL[:i]\<close> and the list scanned is \<^verbatim>\<open>rawURL[i:]\<close>.
\<close>

fun getScheme_loop :: "string \<Rightarrow> string \<Rightarrow> string \<Rightarrow> string \<times> string \<times> err option" where
  "getScheme_loop rawURL pre [] = ([], rawURL, None)"
| "getScheme_loop rawURL pre (c # cs) =
     (if (CHR ''a'' \<le> c \<and> c \<le> CHR ''z'') \<or> (CHR ''A'' \<le> c \<and> c \<le> CHR ''Z'')
        then getScheme_loop rawURL (pre @ [c]) cs
      else if (CHR ''0'' \<le> c \<and> c \<le> CHR ''9'') \<or> c = CHR ''+'' \<or> c = CHR ''-'' \<or> c = CHR ''.''
        then (if pre = [] then ([], rawURL, None) else getScheme_loop rawURL (pre @ [c]) cs)
      else if c = CHR '':''
        then (if pre = [] then ([], [], Some ''missing protocol scheme'') else (pre, cs, None))
      else ([], rawURL, None))"

definition getScheme :: "string \<Rightarrow> string \<times> string \<times> err option" where
  "getScheme rawURL = getScheme_loop rawURL [] rawURL"

definition parse :: "net_url \<Rightarrow> string \<Rightarrow> bool \<Rightarrow> err + url_URL" where
  "parse lib rawURL viaRequest =
     (if stringContainsCTLByte rawURL then Inl ''net/url: invalid control character in URL''
      else if rawURL = [] \<and> viaRequest then Inl ''empty url''
      else if rawURL = ''*'' then Inr \<lparr>Scheme = [], Host = []\<rparr>
      else
        (case getScheme rawURL of
           (scheme0, rest0, Some e) \<Rightarrow> Inl e
         | (scheme0, rest0, None) \<Rightarrow>
             (let scheme = ToLower scheme0;
                  rest = (if HasSuffix rest0 ''?'' \<and> length (filter (\<lambda>c. c = CHR ''?'') rest0) = 1
                          then butlast rest0 else fst (Cut rest0 (CHR ''?'')))
              in if \<not> HasPrefix rest ''/'' \<and> scheme \<noteq> []
                   then Inr \<lparr>Scheme = scheme, Host = []\<rparr>
                 else if \<not> HasPrefix rest ''/'' \<and> viaRequest
                   then Inl ''invalid URI for request''
                 else if \<not> HasPrefix rest ''/'' \<and> CHR '':'' \<in> set (fst (Cut rest (CHR ''/'')))
                   then Inl ''first path segment in URL cannot contain colon''
                 else if (scheme \<noteq> [] \<or> (\<not> viaRequest \<and> \<not> HasPrefix rest ''///'')) \<and>
                         HasPrefix rest ''//''
                   then
                     (case parseAuthority lib (takeWhile (\<lambda>c. c \<noteq> CHR ''/'') (drop 2 rest)) of
                        Inl e \<Rightarrow> Inl e
                      | Inr host \<Rightarrow>
                          (case setPath lib (dropWhile (\<lambda>c. c \<noteq> CHR ''/'') (drop 2 rest)) of
                             Some e \<Rightarrow> Inl e
                           | None \<Rightarrow> Inr \<lparr>Scheme = scheme, Host = host\<rparr>))
                 else
                   (case setPath lib rest of
                      Some e \<Rightarrow> Inl e
                    | None \<Rightarrow> Inr \<lparr>Scheme = scheme, Host = []\<rparr>))))"

text \<open>
  \<^verbatim>\<open>url.ParseRequestURI(rawURL)\<close> is \<^verbatim>\<open>parse(rawURL, true)\<close>; \<^verbatim>\<open>url.Parse(rawURL)\<close> cuts the
  fragment off at the first \<^verbatim>\<open>#\<close>, calls \<^verbatim>\<open>parse(u, false)\<close> and then sets the fragment.
  Both wrap the error in a \<^verbatim>\<open>*url.Error\<close>, which no caller here reads.
\<close>

definition ParseRequestURI :: "net_url \<Rightarrow> string \<Rightarrow> err + url_URL" where
  "ParseRequestURI lib rawURL = parse lib rawURL True"

definition url_Parse :: "net_url \<Rightarrow> string \<Rightarrow> err + url_URL" where
  "url_Parse lib rawURL =
     (case Cut rawURL (CHR ''#'') of
        (u, frag) \<Rightarrow>
          (case parse lib u False of
             Inl e \<Rightarrow> Inl e
           | Inr url \<Rightarrow>
               if frag = [] then Inr url
               else (case setFragment lib frag of Some e \<Rightarrow> Inl e | None \<Rightarrow> Inr url)))"

subsection \<open>JSON documents\<close>

text \<open>
  A JSON document, as \<^verbatim>\<open>encoding/json\<close> reads and writes it. A number written as an
  integer (\<^verbatim>\<open>-?(0|[1-9][0-9]*)\<close>) is \<open>JNumber\<close> with its value; a number written with a
  fraction or an exponent is \<open>JNumberLit\<close> with its text. A string or a key is the Go
  string it stands for, escapes resolved. An object is the list of its members in the
  order written, with keys that may repeat.
\<close>

datatype json =
  JNull
| JBool bool
| JString string
| JNumber int
| JNumberLit string
| JArray "json list"
| JObject "(string \<times> json) list"

subsection \<open>Requests\<close>

text \<open>
  Of a request the handlers read the method, \<^verbatim>\<open>r.Host\<close>, \<^verbatim>\<open>r.URL.Path\<close>, the route
  parameters (\<^verbatim>\<open>chi.URLParam\<close>, the empty string for a parameter the route does not have)
  and the body. \<^verbatim>\<open>render.Decode\<close> chooses the decoder by the content type of the request,
  which is JSON for every request that comes through the router (it installs
  \<^verbatim>\<open>render.SetContentType(render.ContentTypeJSON)\<close>), and decodes with
  \<^verbatim>\<open>json.NewDecoder(r.Body).Decode\<close>. The body is given as that decoder finds it: \<open>Inr\<close>
  with the first JSON value of the body, or \<open>Inl\<close> with the error returned when there is
  no value to decode (\<^verbatim>\<open>EOF\<close> for an empty body, a syntax error otherwise).
\<close>

record Request =
  Method :: string
  Request_Host :: string
  URL_Path :: string
  URLParams :: "(string \<times> string) list"
  Body :: "err + json"

text \<open>
  \<^verbatim>\<open>
  type CreateShortURLRequest struct {
      URL       string `json:"url"`
      ExpiresIn int    `json:"expires_in,omitempty"` // in seconds
  }
  \<close>
  \<open>ExpiresIn\<close> is a Go \<^verbatim>\<open>int\<close>, 64 bits wide on the platforms the image is built for.
\<close>

record CreateShortURLRequest =
  Request_URL :: string
  ExpiresIn :: "64 word"

definition CreateShortURLRequest_zero :: CreateShortURLRequest where
  "CreateShortURLRequest_zero = \<lparr>Request_URL = [], ExpiresIn = 0\<rparr>"

definition chi_URLParam :: "Request \<Rightarrow> string \<Rightarrow> string" where
  "chi_URLParam r name = (case map_of (URLParams r) name of None \<Rightarrow> [] | Some v \<Rightarrow> v)"

subsection \<open>\<^verbatim>\<open>net/http\<close> responses\<close>

text \<open>
  A response is what a handler has written to its \<^verbatim>\<open>http.ResponseWriter\<close>: the status, the
  header set before the status was written, and the body. Every handler starts from a
  writer with no header set. A JSON body is the document encoded, not its bytes.
\<close>

datatype body = Text string | JSON json

record Response =
  Status :: nat
  Header :: "(string \<times> string) list"
  Content :: body

text \<open>
  \<^verbatim>\<open>
  func Error(w ResponseWriter, error string, code int) {
      h := w.Header()
      h.Set("Content-Type", "text/plain; charset=utf-8")
      h.Set("X-Content-Type-Options", "nosniff")
      w.WriteHeader(code)
      fmt.Fprintln(w, error)
  }
  func NotFound(w ResponseWriter, r *Request) { Error(w, "404 page not found", StatusNotFound) }
  \<close>
\<close>

definition http_Error :: "string \<Rightarrow> nat \<Rightarrow> Response" where
  "http_Error error code =
     \<lparr>Status = code,
      Header = [(''Content-Type'', ''text/plain; charset=utf-8''),
                (''X-Content-Type-Options'', ''nosniff'')],
      Content = Text (error @ [CHR 0x0A])\<rparr>"

definition http_NotFound :: Response where
  "http_NotFound = http_Error ''404 page not found'' 404"

definition StatusText :: "nat \<Rightarrow> string" where
  "StatusText code =
     (if code = 200 then ''OK'' else if code = 201 then ''Created''
      else if code = 302 then ''Found'' else if code = 400 then ''Bad Request''
      else if code = 404 then ''Not Found''
      else if code = 500 then ''Internal Server Error'' else [])"

text \<open>
  \<^verbatim>\<open>hexEscapeNonASCII\<close> writes every byte from \<^verbatim>\<open>0x80\<close> on as \<^verbatim>\<open>%\<close> and its two
  lower-case hexadecimal digits; \<^verbatim>\<open>htmlEscape\<close> replaces the five characters
  \<^verbatim>\<open>& < > " '\<close>.
\<close>

definition hexdigit :: "nat \<Rightarrow> char" where
  "hexdigit n = ''0123456789abcdef'' ! n"

definition hexEscapeNonASCII :: "string \<Rightarrow> string" where
  "hexEscapeNonASCII s =
     concat (map (\<lambda>c. if CHR 0x80 \<le> c
                       then [CHR ''%'', hexdigit (of_char c div 16), hexdigit (of_char c mod 16)]
                       else [c]) s)"

definition htmlEscape :: "string \<Rightarrow> string" where
  "htmlEscape s =
     concat (map (\<lambda>c. if c = CHR ''&'' then ''&amp;''
                       else if c = CHR ''<'' then ''&lt;''
                       else if c = CHR ''>'' then ''&gt;''
                       else if c = CHR 0x22 then ''&#34;''
                       else if c = CHR 0x27 then ''&#39;''
                       else [c]) s)"

text \<open>
  \<^verbatim>\<open>
  func Redirect(w ResponseWriter, r *Request, url string, code int) {
      if u, err := urlpkg.Parse(url); err == nil {
          if u.Scheme == "" && u.Host == "" {
              oldpath := r.URL.Path
              if oldpath == "" { oldpath = "/" }
              if url == "" || url[0] != '/' {
                  olddir, _ := path.Split(oldpath)
                  url = olddir + url
              }
              var query string
              if i := strings.Index(url, "?"); i != -1 { url, query = url[:i], url[i:] }
              trailing := strings.HasSuffix(url, "/")
              url = path.Clean(url)
              if trailing && !strings.HasSuffix(url, "/") { url += "/" }
              url += query
          }
      }
      h := w.Header()
      _, hadCT := h["Content-Type"]
      h.Set("Location", hexEscapeNonASCII(url))
      if !hadCT && (r.Method == "GET" || r.Method == "HEAD") {
          h.Set("Content-Type", "text/html; charset=utf-8")
      }
      w.WriteHeader(code)
      if !hadCT && r.Method == "GET" {
          body := "<a href=\"" + htmlEscape(url) + "\">" + StatusText(code) + "</a>.\n"
          fmt.Fprintln(w, body)
      }
  }
  \<close>
  \<open>redirect_target\<close> is the value of \<open>url\<close> after the first block.
\<close>

definition redirect_target :: "net_url \<Rightarrow> string \<Rightarrow> string \<Rightarrow> string" where
  "redirect_target lib request_path url =
     (case url_Parse lib url of
        Inl e \<Rightarrow> url
      | Inr u \<Rightarrow>
          if Scheme u = [] \<and> Host u = [] then
            (let oldpath = (if request_path = [] then ''/'' else request_path);
                 url1 = (if url = [] \<or> hd url \<noteq> CHR ''/''
                         then fst (path_Split oldpath) @ url else url);
                 query = dropWhile (\<lambda>c. c \<noteq> CHR ''?'') url1;
                 url2 = takeWhile (\<lambda>c. c \<noteq> CHR ''?'') url1;
                 trailing = HasSuffix url2 ''/'';
                 url3 = path_Clean url2;
                 url4 = (if trailing \<and> \<not> HasSuffix url3 ''/'' then url3 @ ''/'' else url3)
             in url4 @ query)
          else url)"

definition http_Redirect :: "net_url \<Rightarrow> Request \<Rightarrow> string \<Rightarrow> nat \<Rightarrow> Response" where
  "http_Redirect lib r url code =
     (let url' = redirect_target lib (URL_Path r) url
      in \<lparr>Status = code,
          Header = (''Location'', hexEscapeNonASCII url') #
                   (if Method r = ''GET'' \<or> Method r = ''HEAD''
                    then [(''Content-Type'', ''text/html; charset=utf-8'')] else []),
          Content = Text (if Method r = ''GET''
                          then ''<a href='' @ [CHR 0x22] @ htmlEscape url' @ [CHR 0x22] @ ''>'' @
                               StatusText code @ ''</a>.'' @ [CHR 0x0A, CHR 0x0A]
                          else [])\<rparr>)"

section \<open>Request handlers (internal/api/handlers.go)\<close>

text \<open>
  \<^verbatim>\<open>type UserHandler struct { store store.Store; logger zerolog.Logger }\<close>.
  A handler works on the state of the store, on what the logger has written and on the
  random source; it returns its response and the new state.
\<close>

record 's UserHandler =
  store :: "'s Store"

record 's server =
  Store_state :: 's
  Logger :: "(string \<times> err) list"
  Rand_Reader :: Reader

text \<open>
  \<^verbatim>\<open>
  func (h *UserHandler) handleError(w http.ResponseWriter, err error) {
      // Convert different error types to appropriate HTTP responses
      h.logger.Error().Err(err).Msg("Handling error")
      http.Error(w, "Internal Server Error", http.StatusInternalServerError)
  }
  func (h *UserHandler) respondJSON(w, r, status int, data interface{}) {
      w.WriteHeader(status)
      render.JSON(w, r, data)
  }
  \<close>
  \<^verbatim>\<open>render.JSON\<close> encodes \<open>data\<close> and writes it; the \<^verbatim>\<open>Content-Type\<close> it sets comes after
  the status has been written and is not part of the response.
\<close>

definition handleError :: "'s server \<Rightarrow> err \<Rightarrow> Response \<times> 's server" where
  "handleError srv e =
     (http_Error ''Internal Server Error'' 500,
      srv\<lparr>Logger := Logger srv @ [(''Handling error'', e)]\<rparr>)"

definition respondJSON :: "nat \<Rightarrow> json \<Rightarrow> Response" where
  "respondJSON status data = \<lparr>Status = status, Header = [], Content = JSON data\<rparr>"

subsection \<open>Redirect\<close>

text \<open>
  \<^verbatim>\<open>
  func (h *UserHandler) Redirect(w http.ResponseWriter, r *http.Request) {
      key := chi.URLParam(r, "key")
      if !keyPattern.MatchString(key) {
          http.Error(w, "Invalid key format", http.StatusBadRequest)
          return
      }
      value, err := h.store.Get(r.Context(), key)
      if err != nil {
          http.Error(w, "Internal Server Error", http.StatusInternalServerError)
          return
      }
      url := value.URL
      if url == "" {
          http.NotFound(w, r)
          return
      }
      http.Redirect(w, r, url, http.StatusFound)
  }
  \<close>
\<close>

definition Redirect ::
  "net_url \<Rightarrow> 's UserHandler \<Rightarrow> 's server \<Rightarrow> Request \<Rightarrow> Response \<times> 's server" where
  "Redirect lib h srv r =
     (let key = chi_URLParam r ''key''
      in if \<not> keyPattern_MatchString key then (http_Error ''Invalid key format'' 400, srv)
         else
           (case Get (store h) (Store_state srv) key of
              ((value, Some e), s') \<Rightarrow>
                (http_Error ''Internal Server Error'' 500, srv\<lparr>Store_state := s'\<rparr>)
            | ((value, None), s') \<Rightarrow>
                if URL value = [] then (http_NotFound, srv\<lparr>Store_state := s'\<rparr>)
                else (http_Redirect lib r (URL value) 302, srv\<lparr>Store_state := s'\<rparr>)))"

subsection \<open>CreateRedirect\<close>

text \<open>
  \<^verbatim>\<open>
  type CreateShortURLResponse struct { ShortURL string `json:"short_url,omitempty"` }

  func (c *CreateShortURLRequest) Bind(r *http.Request) error {
      if c.URL == "" { return errors.New("url is required") }
      parsedURL, err := url.ParseRequestURI(c.URL)
      if err != nil { return errors.New("invalid url format") }
      if parsedURL.Scheme != "http" && parsedURL.Scheme != "https" {
          return errors.New("url must use http or https scheme")
      }
      if parsedURL.Host == "" { return errors.New("url must have a valid host") }
      return nil
  }
  \<close>
  \<^verbatim>\<open>render.Bind(r, data)\<close> decodes the body into \<open>data\<close> (\<^verbatim>\<open>render.Decode\<close>) and, when
  that succeeds, returns \<^verbatim>\<open>data.Bind(r)\<close>.
\<close>

record CreateShortURLResponse =
  ShortURL :: string

definition json_CreateShortURLResponse :: "CreateShortURLResponse \<Rightarrow> json" where
  "json_CreateShortURLResponse resp =
     JObject (if ShortURL resp = [] then [] else [(''short_url'', JString (ShortURL resp))])"

definition Bind :: "net_url \<Rightarrow> CreateShortURLRequest \<Rightarrow> err option" where
  "Bind lib c =
     (if Request_URL c = [] then Some ''url is required''
      else
        (case ParseRequestURI lib (Request_URL c) of
           Inl e \<Rightarrow> Some ''invalid url format''
         | Inr parsedURL \<Rightarrow>
             if Scheme parsedURL \<noteq> ''http'' \<and> Scheme parsedURL \<noteq> ''https''
               then Some ''url must use http or https scheme''
             else if Host parsedURL = [] then Some ''url must have a valid host''
             else None))"

text \<open>
  \<^verbatim>\<open>json.Decoder.Decode\<close> into the struct:
  \<^item> \<^verbatim>\<open>null\<close> leaves the struct as it is; a value that is neither \<^verbatim>\<open>null\<close> nor an object
    is an \<^verbatim>\<open>UnmarshalTypeError\<close>;
  \<^item> the members of an object are read in order; a key selects the field whose name it
    is, or else the field whose name it is under \<^verbatim>\<open>foldName\<close>; a key that selects no
    field is skipped;
  \<^item> \<^verbatim>\<open>foldName\<close> writes the letters \<^verbatim>\<open>a\<close> to \<^verbatim>\<open>z\<close> in upper case and every other rune as
    the least rune of its folding orbit: \<^verbatim>\<open>U+017F\<close> (bytes \<^verbatim>\<open>C5 BF\<close>) as \<^verbatim>\<open>S\<close> and
    \<^verbatim>\<open>U+212A\<close> (bytes \<^verbatim>\<open>E2 84 AA\<close>) as \<^verbatim>\<open>K\<close>; no other rune outside ASCII folds to an
    ASCII letter, and the bytes of those are kept here;
  \<^item> \<^verbatim>\<open>null\<close> leaves a field as it is; \<open>url\<close> takes a string, \<open>expires_in\<close> a number
    written as an integer that \<^verbatim>\<open>strconv.ParseInt\<close> reads into 64 bits;
  \<^item> any other value leaves the field as it is and is an \<^verbatim>\<open>UnmarshalTypeError\<close>; the
    decoder goes on with the next member and in the end returns the first such error.
\<close>

fun foldName :: "string \<Rightarrow> string" where
  "foldName [] = []"
| "foldName (c # cs) =
     (if CHR ''a'' \<le> c \<and> c \<le> CHR ''z'' then char_of (of_char c - (32::nat)) # foldName cs
      else if c = CHR 0xC5 \<and> take 1 cs = [CHR 0xBF] then CHR ''S'' # foldName (drop 1 cs)
      else if c = CHR 0xE2 \<and> take 2 cs = [CHR 0x84, CHR 0xAA] then CHR ''K'' # foldName (drop 2 cs)
      else c # foldName cs)"

definition json_field :: "string \<Rightarrow> string option" where
  "json_field key =
     (if key = ''url'' \<or> key = ''expires_in'' then Some key
      else if foldName key = ''URL'' then Some ''url''
      else if foldName key = ''EXPIRES_IN'' then Some ''expires_in''
      else None)"

definition json_kind :: "json \<Rightarrow> string" where
  "json_kind v =
     (case v of
        JNull \<Rightarrow> ''null'' | JBool b \<Rightarrow> ''bool'' | JString s \<Rightarrow> ''string''
      | JNumber n \<Rightarrow> ''number'' | JNumberLit t \<Rightarrow> ''number''
      | JArray vs \<Rightarrow> ''array'' | JObject ms \<Rightarrow> ''object'')"

definition UnmarshalTypeError :: "string \<Rightarrow> string \<Rightarrow> string \<Rightarrow> err" where
  "UnmarshalTypeError val field type =
     ''json: cannot unmarshal '' @ val @ '' into Go struct field CreateShortURLRequest.'' @
     field @ '' of type '' @ type"

definition decode_url :: "json \<Rightarrow> CreateShortURLRequest \<Rightarrow> CreateShortURLRequest \<times> err option" where
  "decode_url v c =
     (case v of
        JNull \<Rightarrow> (c, None)
      | JString s \<Rightarrow> (c\<lparr>Request_URL := s\<rparr>, None)
      | _ \<Rightarrow> (c, Some (UnmarshalTypeError (json_kind v) ''url'' ''string'')))"

definition decode_expires_in ::
  "json \<Rightarrow> CreateShortURLRequest \<Rightarrow> CreateShortURLRequest \<times> err option" where
  "decode_expires_in v c =
     (case v of
        JNull \<Rightarrow> (c, None)
      | JNumber n \<Rightarrow>
          if - (2 ^ 63) \<le> n \<and> n < 2 ^ 63 then (c\<lparr>ExpiresIn := word_of_int n\<rparr>, None)
          else (c, Some (UnmarshalTypeError (''number '' @ FormatInt n) ''expires_in'' ''int''))
      | JNumberLit t \<Rightarrow> (c, Some (UnmarshalTypeError (''number '' @ t) ''expires_in'' ''int''))
      | _ \<Rightarrow> (c, Some (UnmarshalTypeError (json_kind v) ''expires_in'' ''int'')))"

fun decode_object ::
  "(string \<times> json) list \<Rightarrow> CreateShortURLRequest \<Rightarrow> err option \<Rightarrow>
   CreateShortURLRequest \<times> err option" where
  "decode_object [] c saved = (c, saved)"
| "decode_object ((key, v) # members) c saved =
     (case json_field key of
        None \<Rightarrow> decode_object members c saved
      | Some f \<Rightarrow>
          (case (if f = ''url'' then decode_url v c else decode_expires_in v c) of
             (c', e) \<Rightarrow> decode_object members c' (if saved = None then e else saved)))"

definition json_Decode :: "json \<Rightarrow> CreateShortURLRequest \<times> err option" where
  "json_Decode doc =
     (case doc of
        JNull \<Rightarrow> (CreateShortURLRequest_zero, None)
      | JObject members \<Rightarrow> decode_object members CreateShortURLRequest_zero None
      | _ \<Rightarrow>
          (CreateShortURLRequest_zero,
           Some (''json: cannot unmarshal '' @ json_kind doc @
                 '' into Go value of type api.CreateShortURLRequest'')))"

definition render_Decode :: "Request \<Rightarrow> CreateShortURLRequest \<times> err option" where
  "render_Decode r =
     (case Body r of
        Inl e \<Rightarrow> (CreateShortURLRequest_zero, Some e)
      | Inr doc \<Rightarrow> json_Decode doc)"

definition render_Bind :: "net_url \<Rightarrow> Request \<Rightarrow> CreateShortURLRequest \<times> err option" where
  "render_Bind lib r =
     (case render_Decode r of
        (data, Some e) \<Rightarrow> (data, Some e)
      | (data, None) \<Rightarrow> (data, Bind lib data))"

text \<open>
  \<^verbatim>\<open>
  func (h *UserHandler) CreateRedirect(w http.ResponseWriter, r *http.Request) {
      data := &CreateShortURLRequest{}
      if err := render.Bind(r, data); err != nil {
          h.handleError(w, err)
          return
      }
      // Generate a unique key and store the URL
      key, _ := generateKey()
      err := h.store.Put(r.Context(), key, data.URL)
      if err != nil {
          h.handleError(w, err)
          return
      }
      shortURL := r.Host + "/g/" + key
      response := &CreateShortURLResponse{ShortURL: shortURL}
      h.respondJSON(w, r, http.StatusCreated, response)
  }
  \<close>
\<close>

definition CreateRedirect ::
  "net_url \<Rightarrow> 's UserHandler \<Rightarrow> 's server \<Rightarrow> Request \<Rightarrow> Response outcome \<times> 's server" where
  "CreateRedirect lib h srv r =
     (case render_Bind lib r of
        (data, Some e) \<Rightarrow>
          (case handleError srv e of (resp, srv') \<Rightarrow> (Returns resp, srv'))
      | (data, None) \<Rightarrow>
          (case generateKey (Rand_Reader srv) of
             (Panics p, rd') \<Rightarrow> (Panics p, srv\<lparr>Rand_Reader := rd'\<rparr>)
           | (Returns (key, _), rd') \<Rightarrow>
               (case Put (store h) (Store_state srv) key (Request_URL data) of
                  (Some e, s') \<Rightarrow>
                    (case handleError (srv\<lparr>Store_state := s', Rand_Reader := rd'\<rparr>) e of
                       (resp, srv') \<Rightarrow> (Returns resp, srv'))
                | (None, s') \<Rightarrow>
                    (Returns (respondJSON 201
                       (json_CreateShortURLResponse \<lparr>ShortURL = Request_Host r @ ''/g/'' @ key\<rparr>)),
                     srv\<lparr>Store_state := s', Rand_Reader := rd'\<rparr>))))"

subsection \<open>ListRedirects\<close>

text \<open>
  \<^verbatim>\<open>
  type RedirectURLListResponse struct { URLs []RedirectURLItem `json:"urls"` }
  type RedirectURLItem struct {
      Key           string `json:"key"`
      URL           string `json:"url"`
      RedirectCount int    `json:"redirect_count"`
  }

  func (h *UserHandler) ListRedirects(w http.ResponseWriter, r *http.Request) {
      data, err := h.store.List(r.Context())
      if err != nil {
          h.handleError(w, err)
          return
      }
      response := &RedirectURLListResponse{}
      for _, item := range data {
          response.URLs = append(response.URLs, RedirectURLItem{
              Key: item.Key, URL: item.URL, RedirectCount: item.RedirectCount,
          })
      }
      h.respondJSON(w, r, http.StatusOK, response)
  }
  \<close>
  \<^verbatim>\<open>encoding/json\<close> writes a \<^verbatim>\<open>nil\<close> slice as \<^verbatim>\<open>null\<close> and an allocated one as an array.
\<close>

record RedirectURLItem =
  Item_Key :: string
  Item_URL :: string
  Item_RedirectCount :: int

record RedirectURLListResponse =
  URLs :: "RedirectURLItem slice"

definition json_RedirectURLItem :: "RedirectURLItem \<Rightarrow> json" where
  "json_RedirectURLItem item =
     JObject [(''key'', JString (Item_Key item)), (''url'', JString (Item_URL item)),
              (''redirect_count'', JNumber (Item_RedirectCount item))]"

definition json_RedirectURLListResponse :: "RedirectURLListResponse \<Rightarrow> json" where
  "json_RedirectURLListResponse resp =
     JObject [(''urls'', case URLs resp of
                            None \<Rightarrow> JNull
                          | Some items \<Rightarrow> JArray (map json_RedirectURLItem items))]"

fun ListRedirects_loop :: "UrlObject list \<Rightarrow> RedirectURLListResponse \<Rightarrow> RedirectURLListResponse" where
  "ListRedirects_loop [] response = response"
| "ListRedirects_loop (item # items) response =
     ListRedirects_loop items
       (response\<lparr>URLs := append_slice (URLs response)
          \<lparr>Item_Key = Key item, Item_URL = URL item,
           Item_RedirectCount = RedirectCount item\<rparr>\<rparr>)"

definition ListRedirects :: "'s UserHandler \<Rightarrow> 's server \<Rightarrow> Request \<Rightarrow> Response \<times> 's server" where
  "ListRedirects h srv r =
     (case List (store h) (Store_state srv) of
        ((data, Some e), s') \<Rightarrow> handleError (srv\<lparr>Store_state := s'\<rparr>) e
      | ((data, None), s') \<Rightarrow>
          (respondJSON 200
             (json_RedirectURLListResponse (ListRedirects_loop (range_slice data) \<lparr>URLs = None\<rparr>)),
           srv\<lparr>Store_state := s'\<rparr>))"

subsection \<open>DeleteRedirect\<close>

text \<open>
  \<^verbatim>\<open>
  type DeleteRedirectResponse struct { Message string `json:"message"` }

  func (h *UserHandler) DeleteRedirect(w http.ResponseWriter, r *http.Request) {
      key := chi.URLParam(r, "key")
      err := h.store.Delete(r.Context(), key)
      if err != nil {
          h.handleError(w, err)
          return
      }
      response := &DeleteRedirectResponse{Message: "Redirect deleted successfully"}
      h.respondJSON(w, r, http.StatusOK, response)
  }
  \<close>
\<close>

record DeleteRedirectResponse =
  Message :: string

definition json_DeleteRedirectResponse :: "DeleteRedirectResponse \<Rightarrow> json" where
  "json_DeleteRedirectResponse resp = JObject [(''message'', JString (Message resp))]"

definition DeleteRedirect :: "'s UserHandler \<Rightarrow> 's server \<Rightarrow> Request \<Rightarrow> Response \<times> 's server" where
  "DeleteRedirect h srv r =
     (let key = chi_URLParam r ''key''
      in case Delete (store h) (Store_state srv) key of
           (Some e, s') \<Rightarrow> handleError (srv\<lparr>Store_state := s'\<rparr>) e
         | (None, s') \<Rightarrow>
             (respondJSON 200
                (json_DeleteRedirectResponse \<lparr>Message = ''Redirect deleted successfully''\<rparr>),
              srv\<lparr>Store_state := s'\<rparr>))"

subsection \<open>A sample of the URL helpers, for worked examples\<close>

text \<open>
  \<^verbatim>\<open>net/url\<close> takes an authority made of letters, digits, dots and hyphens as the host,
  unchanged, and accepts every path and every fragment that has no percent sign. The
  sample helpers answer so on these inputs and refuse every other input; the examples
  below use them on such inputs only.
\<close>

definition sample_net_url :: net_url where
  "sample_net_url =
     \<lparr>parseAuthority =
        (\<lambda>a. if list_all (\<lambda>c. alnum_class c \<or> c = CHR ''.'' \<or> c = CHR ''-'') a
              then Inr a else Inl ''authority outside the sample''),
      setPath = (\<lambda>p. if list_ex (\<lambda>c. c = CHR ''%'') p then Some ''path outside the sample'' else None),
      setFragment =
        (\<lambda>f. if list_ex (\<lambda>c. c = CHR ''%'') f then Some ''fragment outside the sample'' else None)\<rparr>"

section \<open>Properties of the key generator\<close>

lemma rand_Int_step:
  assumes "mx \<noteq> 0" "BitLen (mx - 1) \<noteq> 0"
    and "io_ReadFull rd ((BitLen (mx - 1) + 7) div 8) = ((bytes, None), rd1)"
  shows "rand_Int rd mx =
    (let b = (if BitLen (mx - 1) mod 8 = 0 then 8 else BitLen (mx - 1) mod 8);
         n = SetBytes ((hd bytes AND (push_bit b 1 - 1)) # tl bytes)
     in if n < mx then (Returns (Inr n), rd1) else rand_Int rd1 mx)"
  using assms by (subst rand_Int.simps) simp

lemma rand_Int_fail:
  assumes "mx \<noteq> 0" "BitLen (mx - 1) \<noteq> 0"
    and "io_ReadFull rd ((BitLen (mx - 1) + 7) div 8) = ((bytes, Some e), rd1)"
  shows "rand_Int rd mx = (Returns (Inl e), rd1)"
  using assms by (subst rand_Int.simps) simp

lemma rand_Int_cases:
  assumes "mx \<noteq> 0"
  shows "(\<exists>e rd'. rand_Int rd mx = (Returns (Inl e), rd')) \<or>
         (\<exists>n rd'. rand_Int rd mx = (Returns (Inr n), rd') \<and> n < mx)"
  using assms
proof (induction rd mx rule: rand_Int.induct)
  case (1 rd mx)
  show ?case
  proof (cases "BitLen (mx - 1) = 0")
    case True
    then show ?thesis using "1.prems" by (subst rand_Int.simps, subst rand_Int.simps) simp
  next
    case bl: False
    obtain bytes e rd1 where
      rf: "io_ReadFull rd ((BitLen (mx - 1) + 7) div 8) = ((bytes, e), rd1)"
      by (metis surj_pair)
    show ?thesis
    proof (cases e)
      case (Some a)
      then show ?thesis using rand_Int_fail [OF "1.prems" bl] rf by simp
    next
      case None
      define b where "b = (if BitLen (mx - 1) mod 8 = 0 then 8 else BitLen (mx - 1) mod 8)"
      define c where "c = SetBytes ((hd bytes AND (push_bit b 1 - 1)) # tl bytes)"
      have step: "rand_Int rd mx = (if c < mx then (Returns (Inr c), rd1) else rand_Int rd1 mx)"
        using rand_Int_step [OF "1.prems" bl] rf None unfolding b_def c_def by (simp add: Let_def)
      show ?thesis
      proof (cases "c < mx")
        case True
        then show ?thesis using step by simp
      next
        case False
        then have "\<not> SetBytes ((hd bytes AND (push_bit b 1 - 1)) # tl bytes) < mx"
          unfolding c_def .
        then show ?thesis
          using "1.IH" [OF "1.prems" bl rf [symmetric] refl None refl refl] "1.prems" step False
          unfolding b_def by simp
      qed
    qed
  qed
qed

lemma alphanumeric_length: "length alphanumeric = 62"
  by (simp add: alphanumeric_def)

lemma alphanumeric_class: "n < length alphanumeric \<Longrightarrow> alnum_class (alphanumeric ! n)"
proof -
  have "list_all alnum_class alphanumeric"
    by (simp add: alphanumeric_def alnum_class_def)
  then show "n < length alphanumeric \<Longrightarrow> alnum_class (alphanumeric ! n)"
    by (simp add: list_all_length)
qed

lemma generateKey_loop_cases:
  "(\<exists>e rd'. generateKey_loop is key rd = (Returns ('''', Some e), rd')) \<or>
   (\<exists>k rd'. generateKey_loop is key rd = (Returns (k, None), rd') \<and>
      length k = length key \<and>
      (\<forall>j < length key. if j \<in> set is then k ! j \<in> set alphanumeric \<and> alnum_class (k ! j)
                          else k ! j = key ! j))"
proof (induction "is" arbitrary: key rd)
  case Nil
  then show ?case by simp
next
  case (Cons i "is")
  have nz: "length alphanumeric \<noteq> 0" by (simp add: alphanumeric_length)
  from rand_Int_cases [OF nz, of rd] show ?case
  proof (elim disjE exE conjE)
    fix e rd'
    assume "rand_Int rd (length alphanumeric) = (Returns (Inl e), rd')"
    then show ?thesis by simp
  next
    fix n rd'
    assume r: "rand_Int rd (length alphanumeric) = (Returns (Inr n), rd')"
      and n: "n < length alphanumeric"
    have step: "generateKey_loop (i # is) key rd =
      generateKey_loop is (key[i := alphanumeric ! n]) rd'"
      using r n by simp
    from Cons.IH [of "key[i := alphanumeric ! n]" rd'] show ?thesis
    proof (elim disjE exE conjE)
      fix e rd''
      assume "generateKey_loop is (key[i := alphanumeric ! n]) rd' = (Returns ('''', Some e), rd'')"
      then show ?thesis using step by simp
    next
      fix k rd''
      assume g: "generateKey_loop is (key[i := alphanumeric ! n]) rd' = (Returns (k, None), rd'')"
        and l: "length k = length (key[i := alphanumeric ! n])"
        and a: "\<forall>j<length (key[i := alphanumeric ! n]).
           if j \<in> set is then k ! j \<in> set alphanumeric \<and> alnum_class (k ! j)
           else k ! j = key[i := alphanumeric ! n] ! j"
      have "\<forall>j < length key. if j \<in> set (i # is) then k ! j \<in> set alphanumeric \<and> alnum_class (k ! j)
                          else k ! j = key ! j"
      proof (intro allI impI)
        fix j assume j: "j < length key"
        show "if j \<in> set (i # is) then k ! j \<in> set alphanumeric \<and> alnum_class (k ! j)
                          else k ! j = key ! j"
        proof (cases "j \<in> set is")
          case True
          then show ?thesis using a j by simp
        next
          case False
          then have kj: "k ! j = key[i := alphanumeric ! n] ! j" using a j by simp
          show ?thesis
          proof (cases "j = i")
            case True
            then show ?thesis using kj j n alphanumeric_class [OF n] by simp
          next
            case ne: False
            then show ?thesis using kj False by simp
          qed
        qed
      qed
      then show ?thesis using step g l by simp
    qed
  qed
qed

lemma generateKey_cases:
  "(\<exists>e rd'. generateKey rd = (Returns ('''', Some e), rd')) \<or>
   (\<exists>k rd'. generateKey rd = (Returns (k, None), rd') \<and> length k = 16 \<and>
      list_all (\<lambda>c. c \<in> set alphanumeric \<and> alnum_class c) k)"
proof -
  from generateKey_loop_cases [of "[0..<16]" "replicate 16 (CHR 0x00)" rd]
  show ?thesis
  proof (elim disjE exE conjE)
    fix e rd'
    assume "generateKey_loop [0..<16] (replicate 16 (CHR 0x00)) rd = (Returns ('''', Some e), rd')"
    then show ?thesis by (simp add: generateKey_def)
  next
    fix k rd'
    assume g: "generateKey_loop [0..<16] (replicate 16 (CHR 0x00)) rd = (Returns (k, None), rd')"
      and l: "length k = length (replicate 16 (CHR 0x00))"
      and a: "\<forall>j<length (replicate 16 (CHR 0x00)).
         if j \<in> set [0..<16] then k ! j \<in> set alphanumeric \<and> alnum_class (k ! j)
         else k ! j = replicate 16 (CHR 0x00) ! j"
    have "length k = 16" using l by simp
    moreover have "\<forall>j < length k. k ! j \<in> set alphanumeric \<and> alnum_class (k ! j)"
      using a l by simp
    then have "list_all (\<lambda>c. c \<in> set alphanumeric \<and> alnum_class c) k"
      by (simp add: list_all_length)
    ultimately show ?thesis using g by (simp add: generateKey_def)
  qed
qed

text \<open>
  Claim C5. Whenever the key generator returns without an error, its key has exactly 16
  characters, each of them a character of the 62-character alphabet, and the key matches
  \<^verbatim>\<open>^[a-zA-Z0-9]{16}$\<close>.
\<close>

theorem generateKey_matches_keyPattern:
  assumes "generateKey rd = (Returns (key, None), rd')"
  shows "length key = 16 \<and> list_all (\<lambda>c. c \<in> set alphanumeric) key \<and>
         keyPattern_MatchString key"
proof -
  from generateKey_cases [of rd] assms
  have "length key = 16" and "list_all (\<lambda>c. c \<in> set alphanumeric \<and> alnum_class c) key"
    by auto
  then show ?thesis
    by (simp add: keyPattern_MatchString_def list_all_iff)
qed

theorem generateKey_matches_keyPattern_witness:
  "generateKey [0x00, 0x01, 0xFF, 0x3E, 0x3D, 0x1A, 0x34, 0x35, 7, 8, 9, 10, 11, 12, 13, 14, 15, 16, 17]
     = (Returns (''ab9A01hijklmnopq'', None), [17]) \<and>
   length ''ab9A01hijklmnopq'' = 16 \<and>
   list_all (\<lambda>c. c \<in> set alphanumeric) ''ab9A01hijklmnopq'' \<and>
   keyPattern_MatchString ''ab9A01hijklmnopq''"
proof -
  have run: "generateKey [0x00, 0x01, 0xFF, 0x3E, 0x3D, 0x1A, 0x34, 0x35, 7, 8, 9, 10, 11, 12, 13, 14, 15, 16, 17]
     = (Returns (''ab9A01hijklmnopq'', None), [17])"
    by code_simp
  from generateKey_matches_keyPattern [OF run] run show ?thesis by simp
qed

text \<open>
  Claim C10. Every number the key generator takes from \<^verbatim>\<open>rand.Int\<close> to index the alphabet
  is below 62, the length of the alphabet; the generator never panics (no index is out
  of range); and when the random source fails it returns the empty string with the error,
  not the characters drawn so far.
\<close>

theorem generateKey_index_in_bounds:
  "(\<forall>num rd'. rand_Int rd (length alphanumeric) = (Returns (Inr num), rd') \<longrightarrow> num < 62) \<and>
   (\<forall>p. fst (generateKey rd) \<noteq> Panics p) \<and>
   (\<forall>key e rd'. generateKey rd = (Returns (key, Some e), rd') \<longrightarrow> key = [])"
proof (intro conjI allI impI)
  fix num rd'
  assume "rand_Int rd (length alphanumeric) = (Returns (Inr num), rd')"
  moreover have "length alphanumeric \<noteq> 0" by (simp add: alphanumeric_length)
  ultimately show "num < 62"
    using rand_Int_cases [of "length alphanumeric" rd] by (auto simp: alphanumeric_length)
next
  fix p
  show "fst (generateKey rd) \<noteq> Panics p"
    using generateKey_cases [of rd] by auto
next
  fix key e rd'
  assume "generateKey rd = (Returns (key, Some e), rd')"
  then show "key = []"
    using generateKey_cases [of rd] by auto
qed

theorem generateKey_index_in_bounds_witness:
  "rand_Int [0xFF, 0x3D] (length alphanumeric) = (Returns (Inr 61), []) \<and>
   generateKey [0x00, 0x01, 0xFF] = (Returns ([], Some ''EOF''), []) \<and>
   fst (generateKey [0x00, 0x01, 0xFF]) \<noteq> Panics ''index out of range''"
proof -
  have "rand_Int [0xFF, 0x3D] (length alphanumeric) = (Returns (Inr 61), [])"
    by code_simp
  moreover have "generateKey [0x00, 0x01, 0xFF] = (Returns ([], Some ''EOF''), [])"
    by code_simp
  ultimately show ?thesis
    using generateKey_index_in_bounds [of "[0x00, 0x01, 0xFF]"] by simp
qed

section \<open>Properties of the storage adapter\<close>

lemma DDB_GetItem_ok:
  "Rejects ddb (GetItem key) = None \<Longrightarrow>
   DDB_GetItem ddb key = ((map_of (Items ddb) key, None), received ddb (GetItem key))"
  by (simp add: DDB_GetItem_def)

lemma received_simps [simp]:
  "Items (received ddb c) = Items ddb"
  "Rejects (received ddb c) = Rejects ddb"
  "Calls (received ddb c) = Calls ddb @ [c]"
  by (simp_all add: received_def)

lemma UnmarshalMap_access_count:
  assumes "UnmarshalMap av = (item, None)"
  shows "map_of av ''access_count'' = None \<and> AccessCount item = 0 \<or>
         map_of av ''access_count'' = Some (AttributeValueMemberN (AccessCount item)) \<or>
         map_of av ''access_count'' = Some AttributeValueMemberNULL \<and> AccessCount item = 0"
  using assms
  by (auto simp: UnmarshalMap_def decode_int64_def split: sum.splits option.splits AttributeValue.splits if_splits)

lemma add_attribute_access_count:
  assumes "UnmarshalMap av = (item, None)" "add_attribute av ''access_count'' 1 = Inr av'"
  shows "av' = AList.update ''access_count'' (AttributeValueMemberN (AccessCount item + 1)) av"
  using UnmarshalMap_access_count [OF assms(1)] assms(2)
  by (auto simp: add_attribute_def)

lemma add_attribute_Inr:
  assumes "add_attribute av name v = Inr av'"
  shows "\<exists>n. (map_of av name = Some (AttributeValueMemberN n) \<or> map_of av name = None \<and> n = 0) \<and>
             av' = AList.update name (AttributeValueMemberN (n + v)) av"
  using assms
  by (auto simp: add_attribute_def split: option.splits AttributeValue.splits)

lemma Client_Get_found:
  assumes "Rejects (DDB w) (GetItem key) = None"
    and "map_of (Items (DDB w)) key = Some av"
    and "unmarshal av = (item, None)"
    and "DDB_UpdateItem (received (DDB w) (GetItem key)) key (Add ''access_count'' 1) = (r, ddb2)"
  shows "Client_Get unmarshal client w key =
    ((to_UrlObject item, None),
     (case r of None \<Rightarrow> w\<lparr>DDB := ddb2\<rparr>
      | Some e \<Rightarrow> debug_Printf client (w\<lparr>DDB := ddb2\<rparr>)
                    (''failed to increment access count: '' @ e @ [CHR 0x0A])))"
  using assms
  by (simp add: Client_Get_def DDB_GetItem_ok expression_Build_def split: option.splits)

lemma DDB_UpdateItem_result:
  assumes "map_of (Items ddb) key = Some av"
    and "DDB_UpdateItem ddb key (Add ''access_count'' 1) = (r, ddb2)"
  shows "Calls ddb2 = Calls ddb @ [UpdateItem key (Add ''access_count'' 1)]"
    and "r = None \<Longrightarrow>
         \<exists>n. (map_of av ''access_count'' = Some (AttributeValueMemberN n) \<or>
              map_of av ''access_count'' = None \<and> n = 0) \<and>
             Items ddb2 = AList.update key
               (AList.update ''access_count'' (AttributeValueMemberN (n + 1)) av) (Items ddb)"
    and "r \<noteq> None \<Longrightarrow> Items ddb2 = Items ddb"
proof -
  show "Calls ddb2 = Calls ddb @ [UpdateItem key (Add ''access_count'' 1)]"
    using assms by (auto simp: DDB_UpdateItem_def split: option.splits sum.splits)
  show "r \<noteq> None \<Longrightarrow> Items ddb2 = Items ddb"
    using assms by (auto simp: DDB_UpdateItem_def split: option.splits sum.splits)
  show "\<exists>n. (map_of av ''access_count'' = Some (AttributeValueMemberN n) \<or>
              map_of av ''access_count'' = None \<and> n = 0) \<and>
             Items ddb2 = AList.update key
               (AList.update ''access_count'' (AttributeValueMemberN (n + 1)) av) (Items ddb)"
    if rn: "r = None"
  proof -
    obtain av' where a: "add_attribute av ''access_count'' 1 = Inr av'"
      and i: "Items ddb2 = AList.update key av' (Items ddb)"
      using assms rn by (auto simp: DDB_UpdateItem_def split: option.splits sum.splits)
    from add_attribute_Inr [OF a] i show ?thesis by auto
  qed
qed

text \<open>
  Claim C6. Take a \<open>Get\<close> on a key whose record is found: the service answers the
  \<open>GetItem\<close> call, an item \<open>av\<close> is stored under the key, and the decoder reads it as
  \<open>item\<close>, whatever the decoder is. Then \<open>Get\<close> returns without error the record as read
  from \<open>av\<close>, the item as it was stored before the update, and it sends exactly one
  \<open>UpdateItem\<close> after the \<open>GetItem\<close>. When the service carries that update out, the
  stored \<open>access_count\<close> becomes the number stored before plus 1 (0 plus 1 when the
  attribute was absent) and nothing else in the table changes. When the update fails with
  an error \<open>e\<close>, the table is unchanged, the error is printed in debug mode only, and the
  result of \<open>Get\<close> is the same.
\<close>

theorem Client_Get_increments_access_count:
  assumes "Rejects (DDB w) (GetItem key) = None"
    and "map_of (Items (DDB w)) key = Some av"
    and "unmarshal av = (item, None)"
    and "Client_Get unmarshal client w key = (res, w')"
  shows "res = (\<lparr>Key = ID item, URL = RedirectURL item, RedirectCount = AccessCount item\<rparr>, None) \<and>
    Calls (DDB w') = Calls (DDB w) @ [GetItem key, UpdateItem key (Add ''access_count'' 1)] \<and>
    (case fst (DDB_UpdateItem (received (DDB w) (GetItem key)) key (Add ''access_count'' 1)) of
       None \<Rightarrow>
         (\<exists>n. (map_of av ''access_count'' = Some (AttributeValueMemberN n) \<or>
               map_of av ''access_count'' = None \<and> n = 0) \<and>
              map_of (Items (DDB w')) =
                (map_of (Items (DDB w)))(key \<mapsto>
                   AList.update ''access_count'' (AttributeValueMemberN (n + 1)) av)) \<and>
         Stdout w' = Stdout w
     | Some e \<Rightarrow>
         Items (DDB w') = Items (DDB w) \<and>
         Stdout w' = Stdout w @
           (if DebugMode client
            then [''failed to increment access count: '' @ e @ [CHR 0x0A]] else []))"
proof -
  obtain r ddb2 where
    upd: "DDB_UpdateItem (received (DDB w) (GetItem key)) key (Add ''access_count'' 1) = (r, ddb2)"
    by (metis surj_pair)
  have found': "map_of (Items (received (DDB w) (GetItem key))) key = Some av"
    using assms(2) by simp
  note get = Client_Get_found [where unmarshal = unmarshal and av = av and client = client,
      OF assms(1-3) upd]
  note u = DDB_UpdateItem_result [OF found' upd]
  show ?thesis
  proof (cases r)
    case None
    from u(2) [OF None] obtain n where
      n: "map_of av ''access_count'' = Some (AttributeValueMemberN n) \<or>
          map_of av ''access_count'' = None \<and> n = 0"
      and i: "Items ddb2 = AList.update key
               (AList.update ''access_count'' (AttributeValueMemberN (n + 1)) av) (Items (DDB w))"
      by auto
    have "map_of (Items (DDB w')) =
            (map_of (Items (DDB w)))(key \<mapsto>
               AList.update ''access_count'' (AttributeValueMemberN (n + 1)) av)"
      using get assms(4) None i by (simp add: update_conv')
    with n have "\<exists>n. (map_of av ''access_count'' = Some (AttributeValueMemberN n) \<or>
               map_of av ''access_count'' = None \<and> n = 0) \<and>
              map_of (Items (DDB w')) =
                (map_of (Items (DDB w)))(key \<mapsto>
                   AList.update ''access_count'' (AttributeValueMemberN (n + 1)) av)"
      by blast
    then show ?thesis
      using get u(1) assms(4) upd None by (simp add: to_UrlObject_def)
  next
    case (Some e)
    then show ?thesis
      using get u(1) u(3) assms(4) upd by (auto simp: to_UrlObject_def debug_Printf_def)
  qed
qed

theorem Client_Get_increments_access_count_witness:
  "(let w = \<lparr>DDB = \<lparr>Items = [(''abcdefghijklmnop'',
                 [(''id'', AttributeValueMemberS ''abcdefghijklmnop''),
                  (''redirect_url'', AttributeValueMemberS ''https://example.com/page''),
                  (''access_count'', AttributeValueMemberN 41),
                  (''created_at'', AttributeValueMemberN 1700000000)])],
               Rejects = (\<lambda>c. None), Calls = []\<rparr>,
             Stdout = [], Now_Unix = 1700000100\<rparr>;
        (res, w') = Client_Get UnmarshalMap \<lparr>DebugMode = True, Table = ''terse''\<rparr> w
                      ''abcdefghijklmnop''
    in res = (\<lparr>Key = ''abcdefghijklmnop'', URL = ''https://example.com/page'',
               RedirectCount = 41\<rparr>, None) \<and>
       map_of (Items (DDB w')) ''abcdefghijklmnop'' =
         Some [(''id'', AttributeValueMemberS ''abcdefghijklmnop''),
               (''redirect_url'', AttributeValueMemberS ''https://example.com/page''),
               (''access_count'', AttributeValueMemberN 42),
               (''created_at'', AttributeValueMemberN 1700000000)] \<and>
       Stdout w' = []) \<and>
   (let w = \<lparr>DDB = \<lparr>Items = [(''abcdefghijklmnop'',
                 [(''id'', AttributeValueMemberS ''abcdefghijklmnop''),
                  (''redirect_url'', AttributeValueMemberS ''https://example.com/page''),
                  (''access_count'', AttributeValueMemberN 41),
                  (''created_at'', AttributeValueMemberN 1700000000)])],
               Rejects = (\<lambda>c. case c of UpdateItem k u \<Rightarrow> Some ''throttled'' | _ \<Rightarrow> None),
               Calls = []\<rparr>,
             Stdout = [], Now_Unix = 1700000100\<rparr>;
        (res, w') = Client_Get UnmarshalMap \<lparr>DebugMode = True, Table = ''terse''\<rparr> w
                      ''abcdefghijklmnop''
    in res = (\<lparr>Key = ''abcdefghijklmnop'', URL = ''https://example.com/page'',
               RedirectCount = 41\<rparr>, None) \<and>
       Items (DDB w') = Items (DDB w) \<and>
       Stdout w' = [''failed to increment access count: throttled'' @ [CHR 0x0A]]) \<and>
   (let w = \<lparr>DDB = \<lparr>Items = [(''abcdefghijklmnop'',
                 [(''id'', AttributeValueMemberS ''abcdefghijklmnop''),
                  (''redirect_url'', AttributeValueMemberN 7)])],
               Rejects = (\<lambda>c. None), Calls = []\<rparr>,
             Stdout = [], Now_Unix = 1700000100\<rparr>;
        (res, w') = Client_Get UnmarshalMap \<lparr>DebugMode = False, Table = ''terse''\<rparr> w
                      ''abcdefghijklmnop''
    in res = (\<lparr>Key = ''abcdefghijklmnop'', URL = ''7'', RedirectCount = 0\<rparr>, None) \<and>
       Calls (DDB w') = [GetItem ''abcdefghijklmnop'',
                         UpdateItem ''abcdefghijklmnop'' (Add ''access_count'' 1)] \<and>
       map_of (Items (DDB w')) ''abcdefghijklmnop'' =
         Some [(''id'', AttributeValueMemberS ''abcdefghijklmnop''),
               (''redirect_url'', AttributeValueMemberN 7),
               (''access_count'', AttributeValueMemberN 1)])"
proof -
  define av where "av = [(''id'', AttributeValueMemberS ''abcdefghijklmnop''),
                  (''redirect_url'', AttributeValueMemberS ''https://example.com/page''),
                  (''access_count'', AttributeValueMemberN 41),
                  (''created_at'', AttributeValueMemberN 1700000000)]"
  define item where "item = \<lparr>ID = ''abcdefghijklmnop'', RedirectURL = ''https://example.com/page'',
    AccessCount = 41, CreatedAt = 1700000000\<rparr>"
  have dec: "UnmarshalMap av = (item, None)"
    by (simp add: UnmarshalMap_def decode_string_def decode_int64_def av_def item_def)
  define av3 where "av3 = [(''id'', AttributeValueMemberS ''abcdefghijklmnop''),
                  (''redirect_url'', AttributeValueMemberN 7)]"
  define item3 where "item3 = \<lparr>ID = ''abcdefghijklmnop'', RedirectURL = ''7'',
    AccessCount = 0, CreatedAt = 0\<rparr>"
  have dec3: "UnmarshalMap av3 = (item3, None)"
    by (simp add: UnmarshalMap_def decode_string_def decode_int64_def av3_def item3_def
        FormatInt_def digits.simps)
  define w1 where "w1 = \<lparr>DDB = \<lparr>Items = [(''abcdefghijklmnop'', av)],
               Rejects = (\<lambda>c. None), Calls = []\<rparr>, Stdout = [], Now_Unix = 1700000100\<rparr>"
  define w2 where "w2 = \<lparr>DDB = \<lparr>Items = [(''abcdefghijklmnop'', av)],
               Rejects = (\<lambda>c. case c of UpdateItem k u \<Rightarrow> Some ''throttled'' | _ \<Rightarrow> None),
               Calls = []\<rparr>, Stdout = [], Now_Unix = 1700000100\<rparr>"
  define w3 where "w3 = \<lparr>DDB = \<lparr>Items = [(''abcdefghijklmnop'', av3)],
               Rejects = (\<lambda>c. None), Calls = []\<rparr>, Stdout = [], Now_Unix = 1700000100\<rparr>"
  define cl where "cl = \<lparr>DebugMode = True, Table = ''terse''\<rparr>"
  define cl3 where "cl3 = \<lparr>DebugMode = False, Table = ''terse''\<rparr>"
  obtain res1 w1' where r1: "Client_Get UnmarshalMap cl w1 ''abcdefghijklmnop'' = (res1, w1')"
    by (metis surj_pair)
  obtain res2 w2' where r2: "Client_Get UnmarshalMap cl w2 ''abcdefghijklmnop'' = (res2, w2')"
    by (metis surj_pair)
  obtain res3 w3' where r3: "Client_Get UnmarshalMap cl3 w3 ''abcdefghijklmnop'' = (res3, w3')"
    by (metis surj_pair)
  have u1: "fst (DDB_UpdateItem (received (DDB w1) (GetItem ''abcdefghijklmnop''))
              ''abcdefghijklmnop'' (Add ''access_count'' 1)) = None"
    by (simp add: DDB_UpdateItem_def add_attribute_def w1_def av_def received_def)
  have u2: "fst (DDB_UpdateItem (received (DDB w2) (GetItem ''abcdefghijklmnop''))
              ''abcdefghijklmnop'' (Add ''access_count'' 1)) = Some ''throttled''"
    by (simp add: DDB_UpdateItem_def w2_def received_def)
  have u3: "fst (DDB_UpdateItem (received (DDB w3) (GetItem ''abcdefghijklmnop''))
              ''abcdefghijklmnop'' (Add ''access_count'' 1)) = None"
    by (simp add: DDB_UpdateItem_def add_attribute_def w3_def av3_def received_def)
  have c1: "map_of av ''access_count'' = Some (AttributeValueMemberN 41)"
    by (simp add: av_def)
  have c3: "map_of av3 ''access_count'' = None"
    by (simp add: av3_def)
  have t1: "res1 = (\<lparr>Key = ''abcdefghijklmnop'', URL = ''https://example.com/page'',
               RedirectCount = 41\<rparr>, None) \<and>
       map_of (Items (DDB w1')) ''abcdefghijklmnop'' =
         Some (AList.update ''access_count'' (AttributeValueMemberN 42) av) \<and>
       Stdout w1' = []"
    using Client_Get_increments_access_count [OF _ _ dec r1] u1 c1
    by (auto simp: w1_def item_def)
  have t2: "res2 = (\<lparr>Key = ''abcdefghijklmnop'', URL = ''https://example.com/page'',
               RedirectCount = 41\<rparr>, None) \<and>
       Items (DDB w2') = Items (DDB w2) \<and>
       Stdout w2' = [''failed to increment access count: throttled'' @ [CHR 0x0A]]"
    using Client_Get_increments_access_count [OF _ _ dec r2] u2
    by (simp add: w2_def item_def cl_def)
  have t3: "res3 = (\<lparr>Key = ''abcdefghijklmnop'', URL = ''7'', RedirectCount = 0\<rparr>, None) \<and>
       Calls (DDB w3') = [GetItem ''abcdefghijklmnop'',
                          UpdateItem ''abcdefghijklmnop'' (Add ''access_count'' 1)] \<and>
       map_of (Items (DDB w3')) ''abcdefghijklmnop'' =
         Some (AList.update ''access_count'' (AttributeValueMemberN 1) av3)"
    using Client_Get_increments_access_count [OF _ _ dec3 r3] u3 c3
    by (auto simp: w3_def item3_def)
  have upd: "AList.update ''access_count'' (AttributeValueMemberN 42) av =
    [(''id'', AttributeValueMemberS ''abcdefghijklmnop''),
               (''redirect_url'', AttributeValueMemberS ''https://example.com/page''),
               (''access_count'', AttributeValueMemberN 42),
               (''created_at'', AttributeValueMemberN 1700000000)]"
    by (simp add: av_def)
  have upd3: "AList.update ''access_count'' (AttributeValueMemberN 1) av3 =
    [(''id'', AttributeValueMemberS ''abcdefghijklmnop''),
               (''redirect_url'', AttributeValueMemberN 7),
               (''access_count'', AttributeValueMemberN 1)]"
    by (simp add: av3_def)
  show ?thesis
    using t1 t2 t3 r1 r2 r3 upd upd3
    unfolding w1_def [symmetric] w2_def [symmetric] w3_def [symmetric] av_def [symmetric]
      av3_def [symmetric] cl_def [symmetric] cl3_def [symmetric]
    by (simp add: Let_def)
qed

text \<open>
  Claim C7. For every key and target URL, when the service carries the \<open>PutItem\<close> call
  out, \<open>Put\<close> returns no error and the record stored under the key afterwards is the new
  one: the key, the URL, \<open>access_count = 0\<close> and \<open>created_at\<close> the Unix time read from
  the clock. This holds whatever was stored under the key before; \<open>PutItem\<close> is the only
  call \<open>Put\<close> sends (it does not look the key up first), and the records under other
  keys are unchanged.
\<close>

theorem Client_Put_overwrites:
  assumes "Rejects (DDB w)
      (PutItem [(''id'', AttributeValueMemberS key), (''redirect_url'', AttributeValueMemberS value),
                (''access_count'', AttributeValueMemberN 0),
                (''created_at'', AttributeValueMemberN (sint (Now_Unix w)))]) = None"
    and "Client_Put client w key value = (e, w')"
  shows "e = None \<and>
    map_of (Items (DDB w')) =
      (map_of (Items (DDB w)))(key \<mapsto>
        [(''id'', AttributeValueMemberS key), (''redirect_url'', AttributeValueMemberS value),
         (''access_count'', AttributeValueMemberN 0),
         (''created_at'', AttributeValueMemberN (sint (Now_Unix w)))]) \<and>
    Calls (DDB w') = Calls (DDB w) @
      [PutItem [(''id'', AttributeValueMemberS key), (''redirect_url'', AttributeValueMemberS value),
                (''access_count'', AttributeValueMemberN 0),
                (''created_at'', AttributeValueMemberN (sint (Now_Unix w)))]]"
  using assms
  by (auto simp: Client_Put_def MarshalMap_def DDB_PutItem_def update_conv')

theorem Client_Put_overwrites_witness:
  "(let w = \<lparr>DDB = \<lparr>Items = [(''abcdefghijklmnop'',
                 [(''id'', AttributeValueMemberS ''abcdefghijklmnop''),
                  (''redirect_url'', AttributeValueMemberS ''https://example.com/old''),
                  (''access_count'', AttributeValueMemberN 7),
                  (''created_at'', AttributeValueMemberN 1600000000)])],
               Rejects = (\<lambda>c. None), Calls = []\<rparr>,
             Stdout = [], Now_Unix = 1700000100\<rparr>;
        (e, w') = Client_Put \<lparr>DebugMode = False, Table = ''terse''\<rparr> w
                    ''abcdefghijklmnop'' ''https://example.com/new''
    in e = None \<and>
       map_of (Items (DDB w')) ''abcdefghijklmnop'' =
         Some [(''id'', AttributeValueMemberS ''abcdefghijklmnop''),
               (''redirect_url'', AttributeValueMemberS ''https://example.com/new''),
               (''access_count'', AttributeValueMemberN 0),
               (''created_at'', AttributeValueMemberN 1700000100)])"
proof -
  define w where "w = \<lparr>DDB = \<lparr>Items = [(''abcdefghijklmnop'',
                 [(''id'', AttributeValueMemberS ''abcdefghijklmnop''),
                  (''redirect_url'', AttributeValueMemberS ''https://example.com/old''),
                  (''access_count'', AttributeValueMemberN 7),
                  (''created_at'', AttributeValueMemberN 1600000000)])],
               Rejects = (\<lambda>c. None), Calls = []\<rparr>,
             Stdout = [], Now_Unix = 1700000100\<rparr>"
  obtain e w' where r: "Client_Put \<lparr>DebugMode = False, Table = ''terse''\<rparr> w
                    ''abcdefghijklmnop'' ''https://example.com/new'' = (e, w')"
    by (metis surj_pair)
  have "Rejects (DDB w)
      (PutItem [(''id'', AttributeValueMemberS ''abcdefghijklmnop''),
                (''redirect_url'', AttributeValueMemberS ''https://example.com/new''),
                (''access_count'', AttributeValueMemberN 0),
                (''created_at'', AttributeValueMemberN (sint (Now_Unix w)))]) = None"
    by (simp add: w_def)
  from Client_Put_overwrites [OF this r] r show ?thesis
    unfolding w_def [symmetric] by (simp add: Let_def w_def)
qed

section \<open>Properties of the request handlers\<close>

lemma hexEscapeNonASCII_ascii:
  "list_all (\<lambda>c. c < CHR 0x80) s \<Longrightarrow> hexEscapeNonASCII s = s"
  by (induction s) (auto simp: hexEscapeNonASCII_def)

lemma getScheme_loop_before_fragment:
  assumes "getScheme_loop raw pre xs = (s, rest, None)" and "s \<noteq> []"
  shows "getScheme_loop raw' pre (takeWhile (\<lambda>c. c \<noteq> CHR ''#'') xs) =
         (s, takeWhile (\<lambda>c. c \<noteq> CHR ''#'') rest, None)"
  using assms
proof (induction xs arbitrary: pre)
  case Nil
  then show ?case by simp
next
  case (Cons c cs)
  show ?case
  proof (cases "c = CHR ''#''")
    case True
    then show ?thesis using Cons.prems by simp
  next
    case False
    then show ?thesis
      using Cons.prems Cons.IH [of "pre @ [c]"]
      by (auto split: if_splits)
  qed
qed

lemma getScheme_before_fragment:
  assumes "getScheme u = (s, rest, None)" and "s \<noteq> []"
  shows "getScheme (takeWhile (\<lambda>c. c \<noteq> CHR ''#'') u) =
         (s, takeWhile (\<lambda>c. c \<noteq> CHR ''#'') rest, None)"
  using getScheme_loop_before_fragment [OF assms [unfolded getScheme_def]]
  by (simp add: getScheme_def)

lemma ToLower_Nil [simp]: "ToLower s = [] \<longleftrightarrow> s = []"
  by (simp add: ToLower_def)

lemma parse_Inr_scheme:
  assumes "parse lib u v = Inr p" and "Scheme p \<noteq> []"
  shows "\<exists>s rest. getScheme u = (s, rest, None) \<and> s \<noteq> []"
proof -
  obtain s rest e where g: "getScheme u = (s, rest, e)"
    by (metis prod.collapse)
  have "e = None \<and> Scheme p = ToLower s"
    using assms g
    by (auto simp: parse_def Let_def split: if_splits option.splits sum.splits)
  then show ?thesis using g assms(2) by auto
qed

lemma parse_scheme_kept:
  assumes "getScheme u = (s, rest, None)" and "s \<noteq> []" and "parse lib u v = Inr q"
  shows "Scheme q \<noteq> []"
proof -
  have "u \<noteq> ''*''"
    using assms(1,2) by (auto simp: getScheme_def)
  then have "Scheme q = ToLower s"
    using assms
    by (auto simp: parse_def Let_def split: if_splits option.splits sum.splits)
  then show ?thesis using assms(2) by simp
qed

lemma url_Parse_keeps_scheme:
  assumes "ParseRequestURI lib u = Inr p" and "Scheme p \<noteq> []" and "url_Parse lib u = Inr q"
  shows "Scheme q \<noteq> []"
proof -
  obtain s rest where g: "getScheme u = (s, rest, None)" and s: "s \<noteq> []"
    using parse_Inr_scheme [OF assms(1) [unfolded ParseRequestURI_def] assms(2)] by auto
  have "parse lib (takeWhile (\<lambda>c. c \<noteq> CHR ''#'') u) False = Inr q"
    using assms(3)
    by (auto simp: url_Parse_def Cut_def split: sum.splits if_splits option.splits)
  from parse_scheme_kept [OF getScheme_before_fragment [OF g s] s this]
  show ?thesis .
qed

lemma redirect_target_absolute:
  assumes "ParseRequestURI lib u = Inr p" and "Scheme p \<noteq> []"
  shows "redirect_target lib request_path u = u"
proof (cases "url_Parse lib u")
  case (Inl e)
  then show ?thesis by (simp add: redirect_target_def)
next
  case (Inr q)
  from url_Parse_keeps_scheme [OF assms Inr] Inr show ?thesis
    by (simp add: redirect_target_def)
qed

lemma Bind_accepts:
  "Bind lib c = None \<longleftrightarrow>
     Request_URL c \<noteq> [] \<and>
     (\<exists>p. ParseRequestURI lib (Request_URL c) = Inr p \<and>
          (Scheme p = ''http'' \<or> Scheme p = ''https'') \<and> Host p \<noteq> [])"
  by (auto simp: Bind_def split: sum.splits)

text \<open>
  Claim C8. \<open>DeleteRedirect\<close> passes the path key to the store's \<open>Delete\<close> as it is, for
  every key: it checks no format. Whenever \<open>Delete\<close> returns no error, the response is
  200 with \<^verbatim>\<open>{"message": "Redirect deleted successfully"}\<close>. With the DynamoDB client as
  the store, \<open>Delete\<close> returns no error whenever the service carries the \<open>DeleteItem\<close>
  call out, whether or not a record is stored under the key; afterwards none is.
\<close>

theorem DeleteRedirect_any_key:
  "(Delete (store h) (Store_state srv) (chi_URLParam r ''key'') = (None, s') \<longrightarrow>
      DeleteRedirect h srv r =
        (\<lparr>Status = 200, Header = [],
          Content = JSON (JObject [(''message'', JString ''Redirect deleted successfully'')])\<rparr>,
         srv\<lparr>Store_state := s'\<rparr>)) \<and>
   (Rejects (DDB w) (DeleteItem key) = None \<longrightarrow>
      fst (Client_Delete client w key) = None \<and>
      map_of (Items (DDB (snd (Client_Delete client w key)))) = (map_of (Items (DDB w)))(key := None))"
  by (simp add: DeleteRedirect_def respondJSON_def json_DeleteRedirectResponse_def
        Client_Delete_def DDB_DeleteItem_def delete_conv')

theorem DeleteRedirect_any_key_witness:
  "fst (DeleteRedirect \<lparr>store = Client_Store UnmarshalMap \<lparr>DebugMode = False, Table = ''terse''\<rparr>\<rparr>
     \<lparr>Store_state = \<lparr>DDB = \<lparr>Items = [], Rejects = (\<lambda>c. None), Calls = []\<rparr>,
                      Stdout = [], Now_Unix = 1700000100\<rparr>,
      Logger = [], Rand_Reader = []\<rparr>
     \<lparr>Method = ''DELETE'', Request_Host = ''localhost:5000'', URL_Path = ''/manage/nope'',
      URLParams = [(''key'', ''nope'')], Body = Inl ''EOF''\<rparr>) =
   \<lparr>Status = 200, Header = [],
    Content = JSON (JObject [(''message'', JString ''Redirect deleted successfully'')])\<rparr> \<and>
   \<not> keyPattern_MatchString ''nope''"
proof -
  define w where "w = \<lparr>DDB = \<lparr>Items = [], Rejects = (\<lambda>c. None), Calls = []\<rparr>,
                      Stdout = [], Now_Unix = 1700000100\<rparr>"
  define cl where "cl = \<lparr>DebugMode = False, Table = ''terse''\<rparr>"
  define r where "r = \<lparr>Method = ''DELETE'', Request_Host = ''localhost:5000'',
      URL_Path = ''/manage/nope'', URLParams = [(''key'', ''nope'')], Body = Inl ''EOF''\<rparr>"
  have key: "chi_URLParam r ''key'' = ''nope''"
    by (simp add: chi_URLParam_def r_def)
  obtain s' where d: "Client_Delete cl w ''nope'' = (None, s')"
    by (simp add: Client_Delete_def DDB_DeleteItem_def w_def)
  have "Delete (store \<lparr>store = Client_Store UnmarshalMap cl\<rparr>)
          (Store_state \<lparr>Store_state = w, Logger = [], Rand_Reader = []\<rparr>)
          (chi_URLParam r ''key'') = (None, s')"
    using d key by (simp add: Client_Store_def)
  then have "fst (DeleteRedirect \<lparr>store = Client_Store UnmarshalMap cl\<rparr>
               \<lparr>Store_state = w, Logger = [], Rand_Reader = []\<rparr> r) =
      \<lparr>Status = 200, Header = [],
       Content = JSON (JObject [(''message'', JString ''Redirect deleted successfully'')])\<rparr>"
    using DeleteRedirect_any_key [of "\<lparr>store = Client_Store UnmarshalMap cl\<rparr>"
        "\<lparr>Store_state = w, Logger = [], Rand_Reader = []\<rparr>" r s' w "''nope''" cl]
    by simp
  moreover have "\<not> keyPattern_MatchString ''nope''"
    by (simp add: keyPattern_MatchString_def)
  ultimately show ?thesis
    unfolding w_def cl_def r_def by simp
qed









text \<open>
  Claim C3. When the store's \<open>List\<close> succeeds with no record, \<open>ListRedirects\<close> responds
  200, not an error, but the body it writes is \<^verbatim>\<open>{"urls": null}\<close>: the handler appends to
  the \<^verbatim>\<open>nil\<close> slice of a fresh response, and with nothing to append the slice stays
  \<^verbatim>\<open>nil\<close>. The claim asks for \<^verbatim>\<open>{"urls": []}\<close>.
\<close>

theorem ListRedirects_no_records:
  assumes "List (store h) (Store_state srv) = ((data, None), s')"
    and "data = None \<or> data = Some []"
  shows "ListRedirects h srv r =
    (\<lparr>Status = 200, Header = [], Content = JSON (JObject [(''urls'', JNull)])\<rparr>,
     srv\<lparr>Store_state := s'\<rparr>)"
  using assms
  by (auto simp: ListRedirects_def respondJSON_def json_RedirectURLListResponse_def range_slice_def)

theorem ListRedirects_no_records_witness:
  "fst (Client_List UnmarshalMap \<lparr>DebugMode = False, Table = ''terse''\<rparr>
          \<lparr>DDB = \<lparr>Items = [], Rejects = (\<lambda>c. None), Calls = []\<rparr>,
           Stdout = [], Now_Unix = 1700000100\<rparr>) = (Some [], None) \<and>
   fst (ListRedirects \<lparr>store = Client_Store UnmarshalMap \<lparr>DebugMode = False, Table = ''terse''\<rparr>\<rparr>
     \<lparr>Store_state = \<lparr>DDB = \<lparr>Items = [], Rejects = (\<lambda>c. None), Calls = []\<rparr>,
                      Stdout = [], Now_Unix = 1700000100\<rparr>,
      Logger = [], Rand_Reader = []\<rparr>
     \<lparr>Method = ''GET'', Request_Host = ''localhost:5000'', URL_Path = ''/manage/'',
      URLParams = [], Body = Inl ''EOF''\<rparr>) =
   \<lparr>Status = 200, Header = [], Content = JSON (JObject [(''urls'', JNull)])\<rparr> \<and>
   JObject [(''urls'', JNull)] \<noteq> JObject [(''urls'', JArray [])]"
proof -
  define w where "w = \<lparr>DDB = \<lparr>Items = [], Rejects = (\<lambda>c. None), Calls = []\<rparr>,
                      Stdout = [], Now_Unix = 1700000100\<rparr>"
  define cl where "cl = \<lparr>DebugMode = False, Table = ''terse''\<rparr>"
  obtain s' where l: "Client_List UnmarshalMap cl w = ((Some [], None), s')"
    by (simp add: Client_List_def DDB_Scan_def w_def)
  then have "List (store \<lparr>store = Client_Store UnmarshalMap cl\<rparr>)
     (Store_state \<lparr>Store_state = w, Logger = [], Rand_Reader = []\<rparr>) = ((Some [], None), s')"
    by (simp add: Client_Store_def)
  from ListRedirects_no_records [OF this] l show ?thesis
    unfolding w_def cl_def by simp
qed

text \<open>
  Claim C2. When the request body fails validation (\<open>render.Bind\<close> returns an error:
  the body does not decode, the URL is empty, \<open>url.ParseRequestURI\<close> refuses it, its
  scheme is neither \<open>http\<close> nor \<open>https\<close>, or its host is empty), \<open>CreateRedirect\<close> does
  not call the store and draws no key, but it answers through \<open>handleError\<close>: the status
  is 500 and the body the fixed text \<open>Internal Server Error\<close>; the descriptive message
  goes to the log only. The claim asks for status 400 with the descriptive message.
\<close>

theorem CreateRedirect_invalid_body:
  assumes "render_Bind lib r = (data, Some e)"
  shows "CreateRedirect lib h srv r =
    (Returns \<lparr>Status = 500,
       Header = [(''Content-Type'', ''text/plain; charset=utf-8''),
                 (''X-Content-Type-Options'', ''nosniff'')],
       Content = Text (''Internal Server Error'' @ [CHR 0x0A])\<rparr>,
     srv\<lparr>Logger := Logger srv @ [(''Handling error'', e)]\<rparr>)"
  using assms by (simp add: CreateRedirect_def handleError_def http_Error_def)

theorem CreateRedirect_invalid_body_witness:
  "(let h = \<lparr>store = Client_Store UnmarshalMap \<lparr>DebugMode = False, Table = ''terse''\<rparr>\<rparr>;
        srv = \<lparr>Store_state = \<lparr>DDB = \<lparr>Items = [], Rejects = (\<lambda>c. None), Calls = []\<rparr>,
                                Stdout = [], Now_Unix = 1700000100\<rparr>,
               Logger = [],
               Rand_Reader = [0, 1, 2, 3, 4, 5, 6, 7, 8, 9, 10, 11, 12, 13, 14, 15]\<rparr>;
        r = \<lparr>Method = ''POST'', Request_Host = ''localhost:5000'', URL_Path = ''/manage/'',
             URLParams = [], Body = Inr (JObject [(''url'', JString ''ftp://x.com'')])\<rparr>
    in CreateRedirect sample_net_url h srv r =
         (Returns \<lparr>Status = 500,
            Header = [(''Content-Type'', ''text/plain; charset=utf-8''),
                      (''X-Content-Type-Options'', ''nosniff'')],
            Content = Text (''Internal Server Error'' @ [CHR 0x0A])\<rparr>,
          srv\<lparr>Logger := [(''Handling error'', ''url must use http or https scheme'')]\<rparr>)) \<and>
   map (\<lambda>u. snd (render_Bind sample_net_url
                 \<lparr>Method = ''POST'', Request_Host = ''localhost:5000'', URL_Path = ''/manage/'',
                  URLParams = [], Body = Inr (JObject [(''url'', JString u)])\<rparr>))
     ['''', ''not-a-url'', ''ftp://x.com'', ''http://''] =
   [Some ''url is required'', Some ''invalid url format'',
    Some ''url must use http or https scheme'', Some ''url must have a valid host'']"
proof -
  define r where "r = \<lparr>Method = ''POST'', Request_Host = ''localhost:5000'',
    URL_Path = ''/manage/'', URLParams = [],
    Body = Inr (JObject [(''url'', JString ''ftp://x.com'')])\<rparr>"
  have b: "render_Bind sample_net_url r =
    (\<lparr>Request_URL = ''ftp://x.com'', ExpiresIn = 0\<rparr>, Some ''url must use http or https scheme'')"
    unfolding r_def by code_simp
  have m: "map (\<lambda>u. snd (render_Bind sample_net_url
                 \<lparr>Method = ''POST'', Request_Host = ''localhost:5000'', URL_Path = ''/manage/'',
                  URLParams = [], Body = Inr (JObject [(''url'', JString u)])\<rparr>))
     ['''', ''not-a-url'', ''ftp://x.com'', ''http://''] =
   [Some ''url is required'', Some ''invalid url format'',
    Some ''url must use http or https scheme'', Some ''url must have a valid host'']"
    by code_simp
  show ?thesis
    using CreateRedirect_invalid_body [OF b,
        of "\<lparr>store = Client_Store UnmarshalMap \<lparr>DebugMode = False, Table = ''terse''\<rparr>\<rparr>"
           "\<lparr>Store_state = \<lparr>DDB = \<lparr>Items = [], Rejects = (\<lambda>c. None), Calls = []\<rparr>,
                                Stdout = [], Now_Unix = 1700000100\<rparr>,
               Logger = [],
               Rand_Reader = [0, 1, 2, 3, 4, 5, 6, 7, 8, 9, 10, 11, 12, 13, 14, 15]\<rparr>"] m
    unfolding r_def by (simp add: Let_def)
qed

text \<open>
  Claim C4, as the code has it. For every request to \<open>Redirect\<close>, with \<open>key\<close> the path
  parameter:
  \<^item> if the key does not match \<^verbatim>\<open>^[a-zA-Z0-9]{16}$\<close>, the response is 400 and the state of
    the store is returned as it was given: no method of the store ran (for the DynamoDB
    client every method adds to \<open>Calls\<close>);
  \<^item> otherwise, if \<open>Get\<close> returns an error, the response is 500;
  \<^item> if \<open>Get\<close> succeeds with an empty URL, the response is 404;
  \<^item> if \<open>Get\<close> succeeds with a non-empty URL, the response is 302 and its \<open>Location\<close>
    is what \<^verbatim>\<open>http.Redirect\<close> makes of the URL: a URL in which \<^verbatim>\<open>url.Parse\<close> finds neither
    scheme nor host is resolved against the request path, and every byte from \<^verbatim>\<open>0x80\<close>
    on is written as \<^verbatim>\<open>%xx\<close>. The \<open>Location\<close> is the URL itself when the URL has only
    ASCII bytes and \<^verbatim>\<open>url.Parse\<close> fails on it or finds a scheme or a host in it.
\<close>

theorem Redirect_responses:
  "(\<not> keyPattern_MatchString (chi_URLParam r ''key'') \<longrightarrow>
      Redirect lib h srv r = (http_Error ''Invalid key format'' 400, srv)) \<and>
   (keyPattern_MatchString (chi_URLParam r ''key'') \<and>
    Get (store h) (Store_state srv) (chi_URLParam r ''key'') = ((value, Some e), s') \<longrightarrow>
      Redirect lib h srv r =
        (http_Error ''Internal Server Error'' 500, srv\<lparr>Store_state := s'\<rparr>)) \<and>
   (keyPattern_MatchString (chi_URLParam r ''key'') \<and>
    Get (store h) (Store_state srv) (chi_URLParam r ''key'') = ((value, None), s') \<and>
    URL value = [] \<longrightarrow>
      Redirect lib h srv r = (http_Error ''404 page not found'' 404, srv\<lparr>Store_state := s'\<rparr>)) \<and>
   (keyPattern_MatchString (chi_URLParam r ''key'') \<and>
    Get (store h) (Store_state srv) (chi_URLParam r ''key'') = ((value, None), s') \<and>
    URL value \<noteq> [] \<longrightarrow>
      snd (Redirect lib h srv r) = srv\<lparr>Store_state := s'\<rparr> \<and>
      Status (fst (Redirect lib h srv r)) = 302 \<and>
      map_of (Header (fst (Redirect lib h srv r))) ''Location'' =
        Some (hexEscapeNonASCII (redirect_target lib (URL_Path r) (URL value))) \<and>
      (list_all (\<lambda>c. c < CHR 0x80) (URL value) \<and>
       (case url_Parse lib (URL value) of
          Inl e \<Rightarrow> True
        | Inr u \<Rightarrow> Scheme u \<noteq> [] \<or> Host u \<noteq> []) \<longrightarrow>
       map_of (Header (fst (Redirect lib h srv r))) ''Location'' = Some (URL value)))"
proof (intro conjI impI)
  assume "\<not> keyPattern_MatchString (chi_URLParam r ''key'')"
  then show "Redirect lib h srv r = (http_Error ''Invalid key format'' 400, srv)"
    by (simp add: Redirect_def)
next
  assume "keyPattern_MatchString (chi_URLParam r ''key'') \<and>
    Get (store h) (Store_state srv) (chi_URLParam r ''key'') = ((value, Some e), s')"
  then show "Redirect lib h srv r =
        (http_Error ''Internal Server Error'' 500, srv\<lparr>Store_state := s'\<rparr>)"
    by (simp add: Redirect_def)
next
  assume "keyPattern_MatchString (chi_URLParam r ''key'') \<and>
    Get (store h) (Store_state srv) (chi_URLParam r ''key'') = ((value, None), s') \<and>
    URL value = []"
  then show "Redirect lib h srv r =
    (http_Error ''404 page not found'' 404, srv\<lparr>Store_state := s'\<rparr>)"
    by (simp add: Redirect_def http_NotFound_def)
next
  assume a: "keyPattern_MatchString (chi_URLParam r ''key'') \<and>
    Get (store h) (Store_state srv) (chi_URLParam r ''key'') = ((value, None), s') \<and>
    URL value \<noteq> []"
  then have run: "Redirect lib h srv r =
    (http_Redirect lib r (URL value) 302, srv\<lparr>Store_state := s'\<rparr>)"
    by (simp add: Redirect_def)
  show "snd (Redirect lib h srv r) = srv\<lparr>Store_state := s'\<rparr>"
    using run by simp
  show "Status (fst (Redirect lib h srv r)) = 302"
    using run by (simp add: http_Redirect_def Let_def)
  show loc: "map_of (Header (fst (Redirect lib h srv r))) ''Location'' =
        Some (hexEscapeNonASCII (redirect_target lib (URL_Path r) (URL value)))"
    using run by (simp add: http_Redirect_def Let_def)
  assume b: "list_all (\<lambda>c. c < CHR 0x80) (URL value) \<and>
       (case url_Parse lib (URL value) of
          Inl e \<Rightarrow> True
        | Inr u \<Rightarrow> Scheme u \<noteq> [] \<or> Host u \<noteq> [])"
  then have "redirect_target lib (URL_Path r) (URL value) = URL value"
    by (auto simp: redirect_target_def split: sum.splits)
  then show "map_of (Header (fst (Redirect lib h srv r))) ''Location'' = Some (URL value)"
    using loc b by (simp add: hexEscapeNonASCII_ascii)
qed

theorem Redirect_responses_witness:
  "(let h = \<lparr>store = Client_Store UnmarshalMap \<lparr>DebugMode = False, Table = ''terse''\<rparr>\<rparr>;
        items = [(''abcdefghijklmnop'',
                  [(''id'', AttributeValueMemberS ''abcdefghijklmnop''),
                   (''redirect_url'', AttributeValueMemberS ''https://example.com/page''),
                   (''access_count'', AttributeValueMemberN 41),
                   (''created_at'', AttributeValueMemberN 1700000000)])];
        srv = \<lparr>Store_state = \<lparr>DDB = \<lparr>Items = items, Rejects = (\<lambda>c. None), Calls = []\<rparr>,
                                Stdout = [], Now_Unix = 1700000100\<rparr>,
               Logger = [], Rand_Reader = []\<rparr>;
        down = \<lparr>Store_state = \<lparr>DDB = \<lparr>Items = items, Rejects = (\<lambda>c. Some ''timeout''),
                                        Calls = []\<rparr>,
                                 Stdout = [], Now_Unix = 1700000100\<rparr>,
                Logger = [], Rand_Reader = []\<rparr>;
        get = (\<lambda>k. \<lparr>Method = ''GET'', Request_Host = ''localhost:5000'', URL_Path = ''/g/'' @ k,
                    URLParams = [(''key'', k)], Body = Inl ''EOF''\<rparr>)
    in Redirect sample_net_url h srv (get ''short'') = (http_Error ''Invalid key format'' 400, srv) \<and>
       Status (fst (Redirect sample_net_url h down (get ''abcdefghijklmnop''))) = 500 \<and>
       Status (fst (Redirect sample_net_url h srv (get ''ABCDEFGHIJ012345''))) = 404 \<and>
       Status (fst (Redirect sample_net_url h srv (get ''abcdefghijklmnop''))) = 302 \<and>
       map_of (Header (fst (Redirect sample_net_url h srv (get ''abcdefghijklmnop'')))) ''Location'' =
         Some ''https://example.com/page'')"
proof -
  define cl where "cl = \<lparr>DebugMode = False, Table = ''terse''\<rparr>"
  define h where "h = \<lparr>store = Client_Store UnmarshalMap cl\<rparr>"
  define items where "items = [(''abcdefghijklmnop'',
                  [(''id'', AttributeValueMemberS ''abcdefghijklmnop''),
                   (''redirect_url'', AttributeValueMemberS ''https://example.com/page''),
                   (''access_count'', AttributeValueMemberN 41),
                   (''created_at'', AttributeValueMemberN 1700000000)])]"
  define srv where "srv = \<lparr>Store_state = \<lparr>DDB = \<lparr>Items = items, Rejects = (\<lambda>c. None), Calls = []\<rparr>,
                                Stdout = [], Now_Unix = 1700000100\<rparr>,
               Logger = [], Rand_Reader = []\<rparr>"
  define down where "down = \<lparr>Store_state = \<lparr>DDB = \<lparr>Items = items,
                                        Rejects = (\<lambda>c. Some ''timeout''), Calls = []\<rparr>,
                                 Stdout = [], Now_Unix = 1700000100\<rparr>,
                Logger = [], Rand_Reader = []\<rparr>"
  define get where "get = (\<lambda>k. \<lparr>Method = ''GET'', Request_Host = ''localhost:5000'',
                    URL_Path = ''/g/'' @ k, URLParams = [(''key'', k)], Body = Inl ''EOF''\<rparr>)"
  note defs = cl_def h_def items_def srv_def down_def get_def
  have k [simp]: "chi_URLParam (get k) ''key'' = k" for k
    by (simp add: get_def chi_URLParam_def)
  have m1: "\<not> keyPattern_MatchString ''short''"
    by (simp add: keyPattern_MatchString_def)
  have m2: "keyPattern_MatchString ''abcdefghijklmnop''"
    by (simp add: keyPattern_MatchString_def alnum_class_def)
  have m3: "keyPattern_MatchString ''ABCDEFGHIJ012345''"
    by (simp add: keyPattern_MatchString_def alnum_class_def)
  obtain s2 where g2: "Get (store h) (Store_state down) ''abcdefghijklmnop'' =
      ((UrlObject_zero, Some ''failed to get item: timeout''), s2)"
    unfolding defs by (simp add: Client_Store_def Client_Get_def DDB_GetItem_def)
  obtain s3 where g3: "Get (store h) (Store_state srv) ''ABCDEFGHIJ012345'' =
      ((UrlObject_zero, None), s3)"
    unfolding defs by (simp add: Client_Store_def Client_Get_def DDB_GetItem_def)
  obtain s4 where g4: "Get (store h) (Store_state srv) ''abcdefghijklmnop'' =
      ((\<lparr>Key = ''abcdefghijklmnop'', URL = ''https://example.com/page'', RedirectCount = 41\<rparr>, None), s4)"
    unfolding defs
    by (simp add: Client_Store_def Client_Get_def DDB_GetItem_def UnmarshalMap_def
        decode_string_def decode_int64_def expression_Build_def DDB_UpdateItem_def
        add_attribute_def to_UrlObject_def received_def)
  have p4: "url_Parse sample_net_url ''https://example.com/page'' =
      Inr \<lparr>Scheme = ''https'', Host = ''example.com''\<rparr>"
    by code_simp
  have c1: "Redirect sample_net_url h srv (get ''short'') = (http_Error ''Invalid key format'' 400, srv)"
    using Redirect_responses [of "get ''short''" sample_net_url h srv] m1 by simp
  have c2: "Status (fst (Redirect sample_net_url h down (get ''abcdefghijklmnop''))) = 500"
    using Redirect_responses [of "get ''abcdefghijklmnop''" sample_net_url h down _ _ s2] m2 g2
    by (simp add: http_Error_def)
  have c3: "Status (fst (Redirect sample_net_url h srv (get ''ABCDEFGHIJ012345''))) = 404"
    using Redirect_responses [of "get ''ABCDEFGHIJ012345''" sample_net_url h srv UrlObject_zero _ s3] m3 g3
    by (simp add: http_Error_def UrlObject_zero_def)
  have c4: "Status (fst (Redirect sample_net_url h srv (get ''abcdefghijklmnop''))) = 302 \<and>
       map_of (Header (fst (Redirect sample_net_url h srv (get ''abcdefghijklmnop'')))) ''Location'' =
         Some ''https://example.com/page''"
    using Redirect_responses [of "get ''abcdefghijklmnop''" sample_net_url h srv
        "\<lparr>Key = ''abcdefghijklmnop'', URL = ''https://example.com/page'', RedirectCount = 41\<rparr>" _ s4]
      m2 g4 p4
    by auto
  show ?thesis
    using c1 c2 c3 c4 unfolding defs Let_def by simp
qed

text \<open>
  Counterexample to claim C4 as stated (\<open>Location\<close> set to the stored URL whenever it
  is not empty): for a stored URL with a byte outside ASCII the \<open>Location\<close> has the byte
  escaped.
\<close>

theorem Redirect_Location_counterexample:
  "(let h = \<lparr>store = Client_Store UnmarshalMap \<lparr>DebugMode = False, Table = ''terse''\<rparr>\<rparr>;
        u = ''http://example.com/'' @ [CHR 0xC3, CHR 0xA9];
        srv = \<lparr>Store_state = \<lparr>DDB = \<lparr>Items = [(''abcdefghijklmnop'',
                   [(''id'', AttributeValueMemberS ''abcdefghijklmnop''),
                    (''redirect_url'', AttributeValueMemberS u),
                    (''access_count'', AttributeValueMemberN 0),
                    (''created_at'', AttributeValueMemberN 1700000000)])],
                  Rejects = (\<lambda>c. None), Calls = []\<rparr>,
                Stdout = [], Now_Unix = 1700000100\<rparr>,
               Logger = [], Rand_Reader = []\<rparr>;
        r = \<lparr>Method = ''GET'', Request_Host = ''localhost:5000'',
             URL_Path = ''/g/abcdefghijklmnop'', URLParams = [(''key'', ''abcdefghijklmnop'')],
             Body = Inl ''EOF''\<rparr>
    in keyPattern_MatchString (chi_URLParam r ''key'') \<and>
       fst (Get (store h) (Store_state srv) (chi_URLParam r ''key'')) =
         (\<lparr>Key = ''abcdefghijklmnop'', URL = u, RedirectCount = 0\<rparr>, None) \<and>
       Status (fst (Redirect sample_net_url h srv r)) = 302 \<and>
       map_of (Header (fst (Redirect sample_net_url h srv r))) ''Location'' =
         Some ''http://example.com/%c3%a9'' \<and>
       map_of (Header (fst (Redirect sample_net_url h srv r))) ''Location'' \<noteq> Some u)"
  by code_simp

text \<open>
  Claim C1, as the code has it. Let \<open>u\<close> be a URL that \<^verbatim>\<open>url.ParseRequestURI\<close> accepts
  with scheme \<open>http\<close> or \<open>https\<close> and a non-empty host, sent as the \<open>url\<close> of a create
  request, in a body that decodes, to a handler on the DynamoDB client. When the random source yields a key and
  the service carries out the \<open>PutItem\<close> and \<open>GetItem\<close> calls, \<open>CreateRedirect\<close> responds
  201 with \<^verbatim>\<open>{"short_url": "<host>/g/<key>"}\<close> and stores \<open>u\<close> under the key, and a
  \<open>Redirect\<close> request on that key, on the state the creation left, responds 302. Its
  \<open>Location\<close> is \<open>u\<close> with every byte from \<^verbatim>\<open>0x80\<close> on written as \<^verbatim>\<open>%xx\<close>; it is \<open>u\<close>
  itself when \<open>u\<close> has only ASCII bytes.
\<close>

theorem CreateRedirect_then_Redirect:
  assumes body: "render_Decode r = (\<lparr>Request_URL = u, ExpiresIn = x\<rparr>, None)"
    and valid: "ParseRequestURI lib u = Inr p" "Scheme p = ''http'' \<or> Scheme p = ''https''"
      "Host p \<noteq> []"
    and rand: "generateKey (Rand_Reader srv) = (Returns (key, None), rd')"
    and put_ok: "Rejects (DDB (Store_state srv))
      (PutItem [(''id'', AttributeValueMemberS key), (''redirect_url'', AttributeValueMemberS u),
                (''access_count'', AttributeValueMemberN 0),
                (''created_at'', AttributeValueMemberN (sint (Now_Unix (Store_state srv))))]) = None"
    and get_ok: "Rejects (DDB (Store_state srv)) (GetItem key) = None"
    and r2: "chi_URLParam r2 ''key'' = key"
    and h: "h = \<lparr>store = Client_Store UnmarshalMap client\<rparr>"
  shows "fst (CreateRedirect lib h srv r) =
      Returns \<lparr>Status = 201, Header = [],
         Content = JSON (JObject [(''short_url'', JString (Request_Host r @ ''/g/'' @ key))])\<rparr> \<and>
    map_of (Items (DDB (Store_state (snd (CreateRedirect lib h srv r))))) key =
      Some [(''id'', AttributeValueMemberS key), (''redirect_url'', AttributeValueMemberS u),
            (''access_count'', AttributeValueMemberN 0),
            (''created_at'', AttributeValueMemberN (sint (Now_Unix (Store_state srv))))] \<and>
    Status (fst (Redirect lib h (snd (CreateRedirect lib h srv r)) r2)) = 302 \<and>
    map_of (Header (fst (Redirect lib h (snd (CreateRedirect lib h srv r)) r2))) ''Location'' =
      Some (hexEscapeNonASCII u) \<and>
    (list_all (\<lambda>c. c < CHR 0x80) u \<longrightarrow>
       map_of (Header (fst (Redirect lib h (snd (CreateRedirect lib h srv r)) r2))) ''Location'' =
         Some u)"
proof -
  define w where "w = Store_state srv"
  define av where "av = [(''id'', AttributeValueMemberS key), (''redirect_url'', AttributeValueMemberS u),
            (''access_count'', AttributeValueMemberN 0),
            (''created_at'', AttributeValueMemberN (sint (Now_Unix w)))]"
  define w1 where "w1 = w\<lparr>DDB := received ((DDB w)\<lparr>Items := AList.update key av (Items (DDB w))\<rparr>) (PutItem av)\<rparr>"
  define srv1 where "srv1 = srv\<lparr>Store_state := w1, Rand_Reader := rd'\<rparr>"
  have u_ne: "u \<noteq> []"
    using valid(1) by (auto simp: ParseRequestURI_def parse_def split: if_splits)
  have scheme: "Scheme p \<noteq> []"
    using valid(2) by auto
  have bind: "render_Bind lib r = (\<lparr>Request_URL = u, ExpiresIn = x\<rparr>, None)"
    using body valid u_ne by (auto simp: render_Bind_def Bind_def)
  have put: "Client_Put client w key u = (None, w1)"
    using put_ok unfolding w_def [symmetric]
    by (simp add: Client_Put_def MarshalMap_def DDB_PutItem_def av_def w1_def)
  have create: "CreateRedirect lib h srv r =
    (Returns (respondJSON 201
       (json_CreateShortURLResponse \<lparr>ShortURL = Request_Host r @ ''/g/'' @ key\<rparr>)), srv1)"
    using bind rand put
    by (simp add: CreateRedirect_def h Client_Store_def w_def srv1_def)
  have resp: "fst (CreateRedirect lib h srv r) =
      Returns \<lparr>Status = 201, Header = [],
         Content = JSON (JObject [(''short_url'', JString (Request_Host r @ ''/g/'' @ key))])\<rparr>"
    using create by (simp add: respondJSON_def json_CreateShortURLResponse_def)
  have stored: "map_of (Items (DDB w1)) key = Some av"
    by (simp add: w1_def update_conv')
  have match: "keyPattern_MatchString key"
    using generateKey_cases [of "Rand_Reader srv"] rand
    by (auto simp: keyPattern_MatchString_def list_all_iff)
  have "- (2 ^ 63) \<le> sint (Now_Unix w) \<and> sint (Now_Unix w) < 2 ^ 63"
    using sint_ge [of "Now_Unix w"] sint_lt [of "Now_Unix w"] by simp
  then have dec: "UnmarshalMap av =
    (\<lparr>ID = key, RedirectURL = u, AccessCount = 0, CreatedAt = sint (Now_Unix w)\<rparr>, None)"
    by (simp add: UnmarshalMap_def decode_string_def decode_int64_def av_def)
  have get_ok1: "Rejects (DDB w1) (GetItem key) = None"
    using get_ok by (simp add: w1_def w_def)
  obtain e2 ddb2 where
    upd: "DDB_UpdateItem (received (DDB w1) (GetItem key)) key (Add ''access_count'' 1) = (e2, ddb2)"
    by (metis surj_pair)
  have get: "fst (Client_Get UnmarshalMap client w1 key) =
     (\<lparr>Key = key, URL = u, RedirectCount = 0\<rparr>, None)"
    using Client_Get_found [where unmarshal = UnmarshalMap and client = client,
        OF get_ok1 stored dec upd]
    by (simp add: to_UrlObject_def)
  then obtain s2 where get': "Get (store h) (Store_state srv1) (chi_URLParam r2 ''key'') =
     ((\<lparr>Key = key, URL = u, RedirectCount = 0\<rparr>, None), s2)"
    unfolding h r2 srv1_def by (cases "Client_Get UnmarshalMap client w1 key") (simp add: Client_Store_def)
  have redirect: "fst (Redirect lib h srv1 r2) = http_Redirect lib r2 u 302"
    using get' match u_ne r2 by (simp add: Redirect_def)
  have target: "redirect_target lib (URL_Path r2) u = u"
    using redirect_target_absolute [OF valid(1) scheme] .
  have status: "Status (fst (Redirect lib h srv1 r2)) = 302"
    using redirect by (simp add: http_Redirect_def Let_def)
  have loc: "map_of (Header (fst (Redirect lib h srv1 r2))) ''Location'' = Some (hexEscapeNonASCII u)"
    using redirect target by (simp add: http_Redirect_def Let_def)
  have snd_create: "snd (CreateRedirect lib h srv r) = srv1"
    using create by simp
  have st1: "Store_state srv1 = w1"
    by (simp add: srv1_def)
  show ?thesis
    unfolding snd_create st1
    using resp stored status loc
    by (simp add: av_def w_def hexEscapeNonASCII_ascii)
qed

theorem CreateRedirect_then_Redirect_witness:
  "(let h = \<lparr>store = Client_Store UnmarshalMap \<lparr>DebugMode = False, Table = ''terse''\<rparr>\<rparr>;
        srv = \<lparr>Store_state = \<lparr>DDB = \<lparr>Items = [], Rejects = (\<lambda>c. None), Calls = []\<rparr>,
                                Stdout = [], Now_Unix = 1700000100\<rparr>,
               Logger = [],
               Rand_Reader = [0, 1, 2, 3, 4, 5, 6, 7, 8, 9, 10, 11, 12, 13, 14, 15]\<rparr>;
        r = \<lparr>Method = ''POST'', Request_Host = ''localhost:5000'', URL_Path = ''/manage/'',
             URLParams = [],
             Body = Inr (JObject [(''url'', JString ''https://example.com/page'')])\<rparr>;
        r2 = \<lparr>Method = ''GET'', Request_Host = ''localhost:5000'',
              URL_Path = ''/g/abcdefghijklmnop'', URLParams = [(''key'', ''abcdefghijklmnop'')],
              Body = Inl ''EOF''\<rparr>
    in fst (CreateRedirect sample_net_url h srv r) =
         Returns \<lparr>Status = 201, Header = [],
            Content = JSON (JObject [(''short_url'', JString ''localhost:5000/g/abcdefghijklmnop'')])\<rparr> \<and>
       Status (fst (Redirect sample_net_url h (snd (CreateRedirect sample_net_url h srv r)) r2)) = 302 \<and>
       map_of (Header (fst (Redirect sample_net_url h (snd (CreateRedirect sample_net_url h srv r)) r2)))
         ''Location'' = Some ''https://example.com/page'')"
proof -
  define cl where "cl = \<lparr>DebugMode = False, Table = ''terse''\<rparr>"
  define h where "h = \<lparr>store = Client_Store UnmarshalMap cl\<rparr>"
  define srv where "srv = \<lparr>Store_state = \<lparr>DDB = \<lparr>Items = [], Rejects = (\<lambda>c. None), Calls = []\<rparr>,
                                Stdout = [], Now_Unix = 1700000100\<rparr>,
               Logger = [],
               Rand_Reader = [0, 1, 2, 3, 4, 5, 6, 7, 8, 9, 10, 11, 12, 13, 14, 15 :: 8 word]\<rparr>"
  define r where "r = \<lparr>Method = ''POST'', Request_Host = ''localhost:5000'', URL_Path = ''/manage/'',
             URLParams = [],
             Body = Inr (JObject [(''url'', JString ''https://example.com/page'')])\<rparr>"
  define r2 where "r2 = \<lparr>Method = ''GET'', Request_Host = ''localhost:5000'',
              URL_Path = ''/g/abcdefghijklmnop'', URLParams = [(''key'', ''abcdefghijklmnop'')],
              Body = Inl ''EOF''\<rparr>"
  have body: "render_Decode r =
      (\<lparr>Request_URL = ''https://example.com/page'', ExpiresIn = 0\<rparr>, None)"
    by (simp add: r_def render_Decode_def json_Decode_def json_field_def decode_url_def
        CreateShortURLRequest_zero_def)
  have valid: "ParseRequestURI sample_net_url ''https://example.com/page'' =
      Inr \<lparr>Scheme = ''https'', Host = ''example.com''\<rparr>"
    by code_simp
  have rand: "generateKey (Rand_Reader srv) = (Returns (''abcdefghijklmnop'', None), [])"
    unfolding srv_def by code_simp
  have k2: "chi_URLParam r2 ''key'' = ''abcdefghijklmnop''"
    by (simp add: r2_def chi_URLParam_def)
  have ascii: "list_all (\<lambda>c. c < CHR 0x80) ''https://example.com/page''"
    by simp
  have "fst (CreateRedirect sample_net_url h srv r) =
         Returns \<lparr>Status = 201, Header = [],
            Content = JSON (JObject [(''short_url'', JString ''localhost:5000/g/abcdefghijklmnop'')])\<rparr> \<and>
       Status (fst (Redirect sample_net_url h (snd (CreateRedirect sample_net_url h srv r)) r2)) = 302 \<and>
       map_of (Header (fst (Redirect sample_net_url h (snd (CreateRedirect sample_net_url h srv r)) r2)))
         ''Location'' = Some ''https://example.com/page''"
  proof -
    have sch: "Scheme \<lparr>Scheme = ''https'', Host = ''example.com''\<rparr> = ''http'' \<or>
      Scheme \<lparr>Scheme = ''https'', Host = ''example.com''\<rparr> = ''https''"
      by simp
    have host: "Host \<lparr>Scheme = ''https'', Host = ''example.com''\<rparr> \<noteq> []"
      by simp
    have put_ok: "Rejects (DDB (Store_state srv))
      (PutItem [(''id'', AttributeValueMemberS ''abcdefghijklmnop''),
                (''redirect_url'', AttributeValueMemberS ''https://example.com/page''),
                (''access_count'', AttributeValueMemberN 0),
                (''created_at'', AttributeValueMemberN (sint (Now_Unix (Store_state srv))))]) = None"
      by (simp add: srv_def)
    have get_ok: "Rejects (DDB (Store_state srv)) (GetItem ''abcdefghijklmnop'') = None"
      by (simp add: srv_def)
    have host_r: "Request_Host r = ''localhost:5000''"
      by (simp add: r_def)
    from CreateRedirect_then_Redirect [OF body valid sch host rand put_ok get_ok k2 h_def] ascii
    show ?thesis
      by (auto simp: host_r)
  qed
  then show ?thesis
    unfolding h_def cl_def srv_def r_def r2_def Let_def .
qed

text \<open>
  Counterexample to claim C1 as stated (\<open>Location\<close> equal to \<open>u\<close> for every accepted
  URL): \<^verbatim>\<open>http://example.com/\<close> followed by the two bytes \<^verbatim>\<open>C3 A9\<close> (e with an acute
  accent in UTF-8) is accepted and stored, and the redirect answers with
  \<^verbatim>\<open>Location: http://example.com/%c3%a9\<close>.
\<close>

theorem CreateRedirect_then_Redirect_counterexample:
  "(let h = \<lparr>store = Client_Store UnmarshalMap \<lparr>DebugMode = False, Table = ''terse''\<rparr>\<rparr>;
        u = ''http://example.com/'' @ [CHR 0xC3, CHR 0xA9];
        srv = \<lparr>Store_state = \<lparr>DDB = \<lparr>Items = [], Rejects = (\<lambda>c. None), Calls = []\<rparr>,
                                Stdout = [], Now_Unix = 1700000100\<rparr>,
               Logger = [],
               Rand_Reader = [0, 1, 2, 3, 4, 5, 6, 7, 8, 9, 10, 11, 12, 13, 14, 15]\<rparr>;
        r = \<lparr>Method = ''POST'', Request_Host = ''localhost:5000'', URL_Path = ''/manage/'',
             URLParams = [], Body = Inr (JObject [(''url'', JString u)])\<rparr>;
        r2 = \<lparr>Method = ''GET'', Request_Host = ''localhost:5000'',
              URL_Path = ''/g/abcdefghijklmnop'', URLParams = [(''key'', ''abcdefghijklmnop'')],
              Body = Inl ''EOF''\<rparr>
    in ParseRequestURI sample_net_url u = Inr \<lparr>Scheme = ''http'', Host = ''example.com''\<rparr> \<and>
       fst (CreateRedirect sample_net_url h srv r) =
         Returns \<lparr>Status = 201, Header = [],
            Content = JSON (JObject [(''short_url'', JString ''localhost:5000/g/abcdefghijklmnop'')])\<rparr> \<and>
       Status (fst (Redirect sample_net_url h (snd (CreateRedirect sample_net_url h srv r)) r2)) = 302 \<and>
       map_of (Header (fst (Redirect sample_net_url h (snd (CreateRedirect sample_net_url h srv r)) r2)))
         ''Location'' = Some ''http://example.com/%c3%a9'' \<and>
       map_of (Header (fst (Redirect sample_net_url h (snd (CreateRedirect sample_net_url h srv r)) r2)))
         ''Location'' \<noteq> Some u)"
  by code_simp

end
